theory Spec2Isabelle
  imports Main "HOL-Library.Word"
begin

section \<open>The multi-backend wallet router (chain/wallet, type MultiWallet)\<close>

text \<open>
  The router holds up to three optional wallet backends and dispatches every call of the
  wallet API to one or several of them. The backends themselves (the local keystore, the
  remote wallet client and the ledger wallet) are implemented outside the router: their
  methods are a parameter of the model, and the router is verified for every
  implementation of them.
\<close>

subsection \<open>Values\<close>

type_synonym byte = "8 word"

text \<open>\<open>address.Address\<close> is a comparable value (it is used as a map key).\<close>

type_synonym address = string

text \<open>\<open>types.KeyType\<close> is a string type.\<close>

type_synonym KeyType = string

text \<open>
  Modelled from the spec: the constant \<open>types.KTSecp256k1Ledger\<close> is declared in
  chain/types. The spec calls it the tag of the hardware-backed signing key type; the
  router only compares key types with it.
\<close>

definition KTSecp256k1Ledger :: KeyType where
  "KTSecp256k1Ledger = ''secp256k1-ledger''"

text \<open>\<open>types.KeyInfo\<close>; the router reads the field \<open>Type\<close> only.\<close>

record KeyInfo =
  Type :: KeyType
  PrivateKey :: "byte list"

text \<open>Payloads that the router passes through without looking at them.\<close>

type_synonym Signature = "byte list"
type_synonym MsgMeta = "byte list"
type_synonym Message = "byte list"
type_synonym SignedMessage = "byte list"

text \<open>A Go slice is \<open>nil\<close> or holds elements; ranging over a \<open>nil\<close> slice visits nothing.\<close>

datatype 'a slice = NilSlice | Slice "'a list"

fun elems :: "'a slice \<Rightarrow> 'a list" where
  "elems NilSlice = []"
| "elems (Slice xs) = xs"

subsection \<open>Failures\<close>

text \<open>
  A call of the router ends with a value, with an error value or with a panic.
  \<open>Errorf msg\<close> is an error value with the message \<open>msg\<close>: the router creates such
  values with \<open>xerrors.Errorf\<close>, and it hands on unchanged the error values that the
  backend methods return. A caller sees the message and cannot tell who created the value.
  \<open>Panic\<close> is a run-time panic (a nil pointer dereference in the router, or a panic
  inside a backend method).
\<close>

datatype error = Errorf string | Panic

type_synonym 'v result = "error + 'v"

text \<open>What a backend method does: return a value, return an error, or panic.\<close>

datatype 'v reply = Value 'v | Failure string | Crash

fun from_backend :: "'v reply \<Rightarrow> 'v result" where
  "from_backend (Value v) = Inr v"
| "from_backend (Failure msg) = Inl (Errorf msg)"
| "from_backend Crash = Inl Panic"

subsection \<open>Backends and the router's configuration\<close>

text \<open>
  The three fields of \<open>MultiWallet\<close> are pointers (\<open>*LocalWallet\<close>,
  \<open>*remotewallet.RemoteWallet\<close>, \<open>*ledgerwallet.LedgerWallet\<close>), each optional:
  \<open>None\<close> is the nil pointer.
\<close>

type_synonym ref = nat

record MultiWallet =
  Local :: "ref option"
  Remote :: "ref option"
  Ledger :: "ref option"

text \<open>
  A value of the interface \<open>getif\<close> is a dynamic type together with a pointer of that
  type. The interface value is not nil even when the pointer is.
\<close>

datatype kind = LocalWallet | RemoteWallet | LedgerWallet

type_synonym getif = "kind \<times> ref option"

definition Local_if :: "MultiWallet \<Rightarrow> getif" where
  "Local_if m = (LocalWallet, Local m)"

definition Remote_if :: "MultiWallet \<Rightarrow> getif" where
  "Remote_if m = (RemoteWallet, Remote m)"

definition Ledger_if :: "MultiWallet \<Rightarrow> getif" where
  "Ledger_if m = (LedgerWallet, Ledger m)"

text \<open>
  Modelled from the spec: the method \<open>Get\<close> of the three backend types is declared with
  the backends. The spec describes it as the probe \<open>IsPresent\<close>, which tells a configured
  slot from an unconfigured one: it returns nil exactly for the nil pointer, and the
  receiver otherwise.
\<close>

definition Get :: "getif \<Rightarrow> getif option" where
  "Get w = (case snd w of None \<Rightarrow> None | Some r \<Rightarrow> Some w)"

text \<open>
  The methods of the backends, for every dynamic type and receiver, as transformers of the
  state \<open>'w\<close> of the world outside the router (key stores, the remote service, the
  device). A method may be called on a nil receiver; what happens then is up to the method
  (for the local-only methods of the Local backend see \<open>local_method\<close> below).
\<close>

record 'w backends =
  impl_WalletNew :: "getif \<Rightarrow> KeyType \<Rightarrow> 'w \<Rightarrow> address reply \<times> 'w"
  impl_WalletHas :: "getif \<Rightarrow> address \<Rightarrow> 'w \<Rightarrow> bool reply \<times> 'w"
  impl_WalletList :: "getif \<Rightarrow> 'w \<Rightarrow> address slice reply \<times> 'w"
  impl_WalletSign :: "getif \<Rightarrow> address \<Rightarrow> byte list \<Rightarrow> MsgMeta \<Rightarrow> 'w \<Rightarrow> Signature option reply \<times> 'w"
  impl_WalletExport :: "getif \<Rightarrow> address \<Rightarrow> string \<Rightarrow> 'w \<Rightarrow> KeyInfo option reply \<times> 'w"
  impl_WalletImport :: "getif \<Rightarrow> KeyInfo option \<Rightarrow> 'w \<Rightarrow> address reply \<times> 'w"
  impl_WalletDelete :: "getif \<Rightarrow> address \<Rightarrow> string \<Rightarrow> 'w \<Rightarrow> unit reply \<times> 'w"
  impl_WalletChangePasswd :: "getif \<Rightarrow> string \<Rightarrow> 'w \<Rightarrow> bool reply \<times> 'w"
  impl_DeleteKey2 :: "getif \<Rightarrow> address \<Rightarrow> 'w \<Rightarrow> unit reply \<times> 'w"
  impl_WalletClearPasswd :: "getif \<Rightarrow> 'w \<Rightarrow> bool reply \<times> 'w"
  impl_WalletIsLock :: "getif \<Rightarrow> 'w \<Rightarrow> bool reply \<times> 'w"
  impl_WalletLock :: "getif \<Rightarrow> 'w \<Rightarrow> unit reply \<times> 'w"
  impl_WalletUnlock :: "getif \<Rightarrow> string \<Rightarrow> 'w \<Rightarrow> unit reply \<times> 'w"
  impl_WalletSignMessage2 :: "getif \<Rightarrow> address \<Rightarrow> Message \<Rightarrow> string \<Rightarrow> 'w \<Rightarrow> SignedMessage option reply \<times> 'w"

subsection \<open>The record of backend calls\<close>

text \<open>
  Every call that the router makes to a backend method is recorded, with its receiver and
  with what the method answered. The record is ghost state: it lets the theorems say
  which backends a router call consults and in which order.
\<close>

datatype event =
    Call_WalletNew getif KeyType "address reply"
  | Call_WalletHas getif address "bool reply"
  | Call_WalletList getif "address slice reply"
  | Call_WalletSign getif address "Signature option reply"
  | Call_WalletExport getif address "KeyInfo option reply"
  | Call_WalletImport getif "address reply"
  | Call_WalletDelete getif address "unit reply"
  | Call_WalletChangePasswd getif "bool reply"
  | Call_DeleteKey2 getif address "unit reply"
  | Call_WalletClearPasswd getif "bool reply"
  | Call_WalletIsLock getif "bool reply"
  | Call_WalletLock getif "unit reply"
  | Call_WalletUnlock getif "unit reply"
  | Call_WalletSignMessage2 getif address "SignedMessage option reply"

fun receiver :: "event \<Rightarrow> getif" where
  "receiver (Call_WalletNew w _ _) = w"
| "receiver (Call_WalletHas w _ _) = w"
| "receiver (Call_WalletList w _) = w"
| "receiver (Call_WalletSign w _ _) = w"
| "receiver (Call_WalletExport w _ _) = w"
| "receiver (Call_WalletImport w _) = w"
| "receiver (Call_WalletDelete w _ _) = w"
| "receiver (Call_WalletChangePasswd w _) = w"
| "receiver (Call_DeleteKey2 w _ _) = w"
| "receiver (Call_WalletClearPasswd w _) = w"
| "receiver (Call_WalletIsLock w _) = w"
| "receiver (Call_WalletLock w _) = w"
| "receiver (Call_WalletUnlock w _) = w"
| "receiver (Call_WalletSignMessage2 w _ _) = w"

record 'w state =
  world :: 'w
  calls :: "event list"

text \<open>One call of a backend method: run it on the world and record it.\<close>

definition invoke :: "('w \<Rightarrow> 'v reply \<times> 'w) \<Rightarrow> ('v reply \<Rightarrow> event) \<Rightarrow> 'w state \<Rightarrow> 'v result \<times> 'w state" where
  "invoke f ev s =
     (case f (world s) of (r, x) \<Rightarrow> (from_backend r, \<lparr>world = x, calls = calls s @ [ev r]\<rparr>))"

subsection \<open>The router\<close>

fun firstNonNil :: "getif list \<Rightarrow> getif option" where
  "firstNonNil [] = None"
| "firstNonNil (w # wallets) = (if Get w \<noteq> None then Some w else firstNonNil wallets)"

fun nonNil :: "getif list \<Rightarrow> getif list" where
  "nonNil [] = []"
| "nonNil (w # wallets) = (if Get w = None then nonNil wallets else w # nonNil wallets)"

text \<open>The loop of \<open>find\<close> over the non-nil wallets.\<close>

fun find_loop :: "'w backends \<Rightarrow> address \<Rightarrow> getif list \<Rightarrow> 'w state \<Rightarrow> getif option result \<times> 'w state" where
  "find_loop B a [] s = (Inr None, s)"
| "find_loop B a (w # ws) s =
     (case invoke (impl_WalletHas B w a) (Call_WalletHas w a) s of
        (Inl err, s') \<Rightarrow> (Inl err, s')
      | (Inr have, s') \<Rightarrow> if have then (Inr (Some w), s') else find_loop B a ws s')"

text \<open>\<open>MultiWallet.find\<close>; it does not use its receiver.\<close>

definition find_wallet :: "'w backends \<Rightarrow> address \<Rightarrow> getif list \<Rightarrow> 'w state \<Rightarrow> getif option result \<times> 'w state" where
  "find_wallet B a wallets s = find_loop B a (nonNil wallets) s"

definition WalletNew :: "'w backends \<Rightarrow> MultiWallet \<Rightarrow> KeyType \<Rightarrow> 'w state \<Rightarrow> address result \<times> 'w state" where
  "WalletNew B m keyType s =
     (let local = (if keyType = KTSecp256k1Ledger then Ledger_if m else Local_if m) in
      case firstNonNil [Remote_if m, local] of
        None \<Rightarrow> (Inl (Errorf (''no wallet backends supporting key type: '' @ keyType)), s)
      | Some w \<Rightarrow> invoke (impl_WalletNew B w keyType) (Call_WalletNew w keyType) s)"

definition WalletHas :: "'w backends \<Rightarrow> MultiWallet \<Rightarrow> address \<Rightarrow> 'w state \<Rightarrow> bool result \<times> 'w state" where
  "WalletHas B m a s =
     (case find_wallet B a [Remote_if m, Ledger_if m, Local_if m] s of
        (Inl err, s') \<Rightarrow> (Inl err, s')
      | (Inr w, s') \<Rightarrow> (Inr (w \<noteq> None), s'))"

text \<open>The inner loop of \<open>WalletList\<close>: \<open>out\<close> and \<open>seen\<close> over one backend's list.\<close>

fun collect :: "address list \<Rightarrow> address list \<times> address set \<Rightarrow> address list \<times> address set" where
  "collect [] (out, seen) = (out, seen)"
| "collect (a # l) (out, seen) =
     (if a \<in> seen then collect l (out, seen) else collect l (out @ [a], insert a seen))"

fun WalletList_loop :: "'w backends \<Rightarrow> getif list \<Rightarrow> address list \<times> address set \<Rightarrow> 'w state \<Rightarrow> address slice result \<times> 'w state" where
  "WalletList_loop B [] (out, seen) s = (Inr (Slice out), s)"
| "WalletList_loop B (w # ws) (out, seen) s =
     (case invoke (impl_WalletList B w) (Call_WalletList w) s of
        (Inl err, s') \<Rightarrow> (Inl err, s')
      | (Inr l, s') \<Rightarrow> WalletList_loop B ws (collect (elems l) (out, seen)) s')"

definition WalletList :: "'w backends \<Rightarrow> MultiWallet \<Rightarrow> 'w state \<Rightarrow> address slice result \<times> 'w state" where
  "WalletList B m s = WalletList_loop B (nonNil [Remote_if m, Ledger_if m, Local_if m]) ([], {}) s"

definition WalletSign :: "'w backends \<Rightarrow> MultiWallet \<Rightarrow> address \<Rightarrow> byte list \<Rightarrow> MsgMeta \<Rightarrow> 'w state \<Rightarrow> Signature option result \<times> 'w state" where
  "WalletSign B m signer toSign meta s =
     (case find_wallet B signer [Remote_if m, Ledger_if m, Local_if m] s of
        (Inl err, s') \<Rightarrow> (Inl err, s')
      | (Inr None, s') \<Rightarrow> (Inl (Errorf ''key not found''), s')
      | (Inr (Some w), s') \<Rightarrow>
          invoke (impl_WalletSign B w signer toSign meta) (Call_WalletSign w signer) s')"

definition WalletExport :: "'w backends \<Rightarrow> MultiWallet \<Rightarrow> address \<Rightarrow> string \<Rightarrow> 'w state \<Rightarrow> KeyInfo option result \<times> 'w state" where
  "WalletExport B m a password s =
     (case find_wallet B a [Remote_if m, Local_if m] s of
        (Inl err, s') \<Rightarrow> (Inl err, s')
      | (Inr None, s') \<Rightarrow> (Inl (Errorf ''key not found''), s')
      | (Inr (Some w), s') \<Rightarrow>
          invoke (impl_WalletExport B w a password) (Call_WalletExport w a) s')"

text \<open>\<open>info\<close> is a pointer; reading \<open>info.Type\<close> through the nil pointer panics.\<close>

definition WalletImport :: "'w backends \<Rightarrow> MultiWallet \<Rightarrow> KeyInfo option \<Rightarrow> 'w state \<Rightarrow> address result \<times> 'w state" where
  "WalletImport B m info s =
     (case info of
        None \<Rightarrow> (Inl Panic, s)
      | Some ki \<Rightarrow>
          (let local = (if Type ki = KTSecp256k1Ledger then Ledger_if m else Local_if m) in
           case firstNonNil [Remote_if m, local] of
             None \<Rightarrow> (Inl (Errorf ''no wallet backends configured''), s)
           | Some w \<Rightarrow> invoke (impl_WalletImport B w info) (Call_WalletImport w) s))"

text \<open>
  The loop of \<open>WalletDelete\<close> has no bound: the function is partial, and \<open>None\<close> stands
  for a run that never returns.
\<close>

partial_function (option) WalletDelete :: "'w backends \<Rightarrow> MultiWallet \<Rightarrow> address \<Rightarrow> string \<Rightarrow> 'w state \<Rightarrow> (unit result \<times> 'w state) option" where
  "WalletDelete B m a pass s =
     (case find_wallet B a [Remote_if m, Ledger_if m, Local_if m] s of
        (Inl err, s') \<Rightarrow> Some (Inl err, s')
      | (Inr None, s') \<Rightarrow> Some (Inr (), s')
      | (Inr (Some w), s') \<Rightarrow>
          (case invoke (impl_WalletDelete B w a pass) (Call_WalletDelete w a) s' of
             (Inl err, s'') \<Rightarrow> Some (Inl err, s'')
           | (Inr u, s'') \<Rightarrow> WalletDelete B m a pass s''))"

text \<open>
  Modelled from the spec: the error with which an unconfigured backend answers is created
  inside the backends. The spec names its kind, "no backend available"; the message is the
  one the router uses for the same condition in \<open>WalletImport\<close>.
\<close>

definition NoBackendAvailable :: string where
  "NoBackendAvailable = ''no wallet backends configured''"

text \<open>
  Modelled from the spec: the methods \<open>WalletChangePasswd\<close>, \<open>DeleteKey2\<close>,
  \<open>WalletClearPasswd\<close>, \<open>WalletIsLock\<close>, \<open>WalletLock\<close>, \<open>WalletUnlock\<close> and
  \<open>WalletSignMessage2\<close> of \<open>*LocalWallet\<close> are declared with the local key store, and
  what they do on a nil receiver is decided there. The spec says of the local-only
  operations that an unconfigured Local backend produces a well-defined error of the kind
  "no backend available" when it is invoked, not undefined behaviour: on the nil receiver
  the method returns that error and changes nothing; on any other receiver it is the key
  store's method \<open>f\<close>. The router calls these methods on \<open>m.Local\<close> without a check of its
  own.
\<close>

definition local_method :: "(getif \<Rightarrow> 'w \<Rightarrow> 'v reply \<times> 'w) \<Rightarrow> getif \<Rightarrow> 'w \<Rightarrow> 'v reply \<times> 'w" where
  "local_method f w x = (case snd w of None \<Rightarrow> (Failure NoBackendAvailable, x) | Some r \<Rightarrow> f w x)"

definition WalletChangePasswd :: "'w backends \<Rightarrow> MultiWallet \<Rightarrow> string \<Rightarrow> 'w state \<Rightarrow> bool result \<times> 'w state" where
  "WalletChangePasswd B m newPasswd s =
     invoke (local_method (\<lambda>w. impl_WalletChangePasswd B w newPasswd) (Local_if m)) (Call_WalletChangePasswd (Local_if m)) s"

definition DeleteKey2 :: "'w backends \<Rightarrow> MultiWallet \<Rightarrow> address \<Rightarrow> 'w state \<Rightarrow> unit result \<times> 'w state" where
  "DeleteKey2 B m addr s =
     invoke (local_method (\<lambda>w. impl_DeleteKey2 B w addr) (Local_if m)) (Call_DeleteKey2 (Local_if m) addr) s"

definition WalletClearPasswd :: "'w backends \<Rightarrow> MultiWallet \<Rightarrow> 'w state \<Rightarrow> bool result \<times> 'w state" where
  "WalletClearPasswd B m s =
     invoke (local_method (impl_WalletClearPasswd B) (Local_if m)) (Call_WalletClearPasswd (Local_if m)) s"

definition WalletIsLock :: "'w backends \<Rightarrow> MultiWallet \<Rightarrow> 'w state \<Rightarrow> bool result \<times> 'w state" where
  "WalletIsLock B m s =
     invoke (local_method (impl_WalletIsLock B) (Local_if m)) (Call_WalletIsLock (Local_if m)) s"

definition WalletLock :: "'w backends \<Rightarrow> MultiWallet \<Rightarrow> 'w state \<Rightarrow> unit result \<times> 'w state" where
  "WalletLock B m s =
     invoke (local_method (impl_WalletLock B) (Local_if m)) (Call_WalletLock (Local_if m)) s"

definition WalletUnlock :: "'w backends \<Rightarrow> MultiWallet \<Rightarrow> string \<Rightarrow> 'w state \<Rightarrow> unit result \<times> 'w state" where
  "WalletUnlock B m password s =
     invoke (local_method (\<lambda>w. impl_WalletUnlock B w password) (Local_if m)) (Call_WalletUnlock (Local_if m)) s"

definition WalletSignMessage2 :: "'w backends \<Rightarrow> MultiWallet \<Rightarrow> address \<Rightarrow> Message \<Rightarrow> string \<Rightarrow> 'w state \<Rightarrow> SignedMessage option result \<times> 'w state" where
  "WalletSignMessage2 B m k msg passwd s =
     invoke (local_method (\<lambda>w. impl_WalletSignMessage2 B w k msg passwd) (Local_if m))
       (Call_WalletSignMessage2 (Local_if m) k) s"

declare WalletDelete.simps [code]

subsection \<open>Reading the record of calls\<close>

text \<open>
  \<open>declined a ws\<close>: each wallet of \<open>ws\<close>, in this order, was asked for the address \<open>a\<close>
  and answered that it does not have it.
\<close>

definition declined :: "address \<Rightarrow> getif list \<Rightarrow> event list" where
  "declined a ws = map (\<lambda>w. Call_WalletHas w a (Value False)) ws"

text \<open>The wallets of a list whose pointer is not nil, in the order of the list.\<close>

definition configured :: "getif list \<Rightarrow> getif list" where
  "configured wallets = filter (\<lambda>w. snd w \<noteq> None) wallets"

text \<open>
  What one run of the search loop over the wallets \<open>ws\<close> returns and which calls it
  records: nobody has the address, or a first wallet has it, or a first call fails.
\<close>

definition search_run :: "address \<Rightarrow> getif list \<Rightarrow> getif option result \<Rightarrow> event list \<Rightarrow> bool" where
  "search_run a ws r evs \<longleftrightarrow>
     (r = Inr None \<and> evs = declined a ws) \<or>
     (\<exists>pre w post. ws = pre @ w # post \<and> r = Inr (Some w) \<and>
        evs = declined a pre @ [Call_WalletHas w a (Value True)]) \<or>
     (\<exists>pre w post rep e. ws = pre @ w # post \<and> r = Inl e \<and> from_backend rep = Inl e \<and>
        evs = declined a pre @ [Call_WalletHas w a rep])"

text \<open>
  The spec's words for the result of \<open>WalletList\<close>: duplicates removed, preserving the
  order of first occurrence. An element stays where it occurs first and its later copies
  are dropped.
\<close>

fun first_occurrences :: "'a list \<Rightarrow> 'a list" where
  "first_occurrences [] = []"
| "first_occurrences (x # xs) = x # first_occurrences (removeAll x xs)"

subsection \<open>An implementation of the backends: key stores in memory\<close>

text \<open>
  Each backend owns a list of addresses. A method called on a nil receiver panics, as a
  method that reads a field of its receiver does; a backend listed as unreachable fails
  every call with an error.
\<close>

record stores =
  remote_keys :: "address list"
  ledger_keys :: "address list"
  local_keys :: "address list"
  unreachable :: "kind list"

fun keys_of :: "kind \<Rightarrow> stores \<Rightarrow> address list" where
  "keys_of RemoteWallet x = remote_keys x"
| "keys_of LedgerWallet x = ledger_keys x"
| "keys_of LocalWallet x = local_keys x"

fun put_keys :: "kind \<Rightarrow> address list \<Rightarrow> stores \<Rightarrow> stores" where
  "put_keys RemoteWallet ks x = x\<lparr>remote_keys := ks\<rparr>"
| "put_keys LedgerWallet ks x = x\<lparr>ledger_keys := ks\<rparr>"
| "put_keys LocalWallet ks x = x\<lparr>local_keys := ks\<rparr>"

definition serve :: "getif \<Rightarrow> stores \<Rightarrow> 'v \<times> stores \<Rightarrow> 'v reply \<times> stores" where
  "serve w x ok =
     (case snd w of
        None \<Rightarrow> (Crash, x)
      | Some r \<Rightarrow>
          if fst w \<in> set (unreachable x) then (Failure ''unreachable'', x)
          else (Value (fst ok), snd ok))"

definition store_backends :: "stores backends" where
  "store_backends = \<lparr>
     impl_WalletNew = (\<lambda>w kt x. serve w x (''key-'' @ kt, put_keys (fst w) (keys_of (fst w) x @ [''key-'' @ kt]) x)),
     impl_WalletHas = (\<lambda>w a x. serve w x (a \<in> set (keys_of (fst w) x), x)),
     impl_WalletList = (\<lambda>w x. serve w x (Slice (keys_of (fst w) x), x)),
     impl_WalletSign = (\<lambda>w a d meta x. serve w x (Some d, x)),
     impl_WalletExport = (\<lambda>w a pw x. serve w x (Some \<lparr>Type = ''secp256k1'', PrivateKey = []\<rparr>, x)),
     impl_WalletImport = (\<lambda>w info x. serve w x (''imported'', put_keys (fst w) (keys_of (fst w) x @ [''imported'']) x)),
     impl_WalletDelete = (\<lambda>w a pw x. serve w x ((), put_keys (fst w) (removeAll a (keys_of (fst w) x)) x)),
     impl_WalletChangePasswd = (\<lambda>w pw x. serve w x (True, x)),
     impl_DeleteKey2 = (\<lambda>w a x. serve w x ((), put_keys (fst w) (removeAll a (keys_of (fst w) x)) x)),
     impl_WalletClearPasswd = (\<lambda>w x. serve w x (True, x)),
     impl_WalletIsLock = (\<lambda>w x. serve w x (False, x)),
     impl_WalletLock = (\<lambda>w x. serve w x ((), x)),
     impl_WalletUnlock = (\<lambda>w pw x. serve w x ((), x)),
     impl_WalletSignMessage2 = (\<lambda>w k msg pw x. serve w x (Some msg, x))\<rparr>"

subsection \<open>Example configurations\<close>

definition wallets_RL :: MultiWallet where
  "wallets_RL = \<lparr>Local = Some 1, Remote = Some 2, Ledger = None\<rparr>"

definition wallets_all :: MultiWallet where
  "wallets_all = \<lparr>Local = Some 1, Remote = Some 2, Ledger = Some 3\<rparr>"

definition wallets_L :: MultiWallet where
  "wallets_L = \<lparr>Local = Some 1, Remote = None, Ledger = None\<rparr>"

definition wallets_none :: MultiWallet where
  "wallets_none = \<lparr>Local = None, Remote = None, Ledger = None\<rparr>"

definition wallets_R :: MultiWallet where
  "wallets_R = \<lparr>Local = None, Remote = Some 2, Ledger = None\<rparr>"

definition start :: "stores \<Rightarrow> stores state" where
  "start x = \<lparr>world = x, calls = []\<rparr>"

subsection \<open>Who claims an address\<close>

text \<open>
  The number of the wallets \<open>ws\<close> whose \<open>WalletHas\<close> answers true for the address \<open>a\<close>
  in the world \<open>x\<close>.
\<close>

definition claimants :: "'w backends \<Rightarrow> address \<Rightarrow> getif list \<Rightarrow> 'w \<Rightarrow> nat" where
  "claimants B a ws x = length (filter (\<lambda>w. fst (impl_WalletHas B w a x) = Value True) ws)"

subsection \<open>What the backends answer\<close>

text \<open>
  \<open>interrogate B a ws x\<close>: every wallet of \<open>ws\<close> is asked for the address \<open>a\<close>, in the
  order of the list, the first in the world \<open>x\<close> and each next one in the world that the
  query before it left. The result lists, for every wallet, what its \<open>WalletHas\<close> answered
  and the world after its query.
\<close>

fun interrogate :: "'w backends \<Rightarrow> address \<Rightarrow> getif list \<Rightarrow> 'w \<Rightarrow> (getif \<times> bool reply \<times> 'w) list" where
  "interrogate B a [] x = []"
| "interrogate B a (w # ws) x =
     (case impl_WalletHas B w a x of (rep, x') \<Rightarrow> (w, rep, x') # interrogate B a ws x')"

text \<open>The same for the configured wallets of a list, from the world of a state.\<close>

definition asked :: "'w backends \<Rightarrow> address \<Rightarrow> getif list \<Rightarrow> 'w state \<Rightarrow> (getif \<times> bool reply \<times> 'w) list" where
  "asked B a wallets s = interrogate B a (configured wallets) (world s)"

text \<open>A backend refuses when it answers that it does not have the address.\<close>

definition refused :: "getif \<times> bool reply \<times> 'w \<Rightarrow> bool" where
  "refused q \<longleftrightarrow> fst (snd q) = Value False"

text \<open>The calls recorded for a list of queries, and the world after the last of them.\<close>

definition has_calls :: "address \<Rightarrow> (getif \<times> bool reply \<times> 'w) list \<Rightarrow> event list" where
  "has_calls a qs = map (\<lambda>q. Call_WalletHas (fst q) a (fst (snd q))) qs"

definition world_after :: "'w \<Rightarrow> (getif \<times> bool reply \<times> 'w) list \<Rightarrow> 'w" where
  "world_after x qs = last (x # map (\<lambda>q. snd (snd q)) qs)"

subsection \<open>Rounds of the deletion loop\<close>

text \<open>
  One successful round of the loop of \<open>WalletDelete\<close>, from the state \<open>s\<close> to the state
  \<open>s'\<close>: the search finds an owner and the owner's \<open>WalletDelete\<close> succeeds.
\<close>

definition delete_round :: "'w backends \<Rightarrow> MultiWallet \<Rightarrow> address \<Rightarrow> string \<Rightarrow> 'w state \<Rightarrow> 'w state \<Rightarrow> bool" where
  "delete_round B m a pass s s' \<longleftrightarrow>
     (\<exists>w s1. find_wallet B a [Remote_if m, Ledger_if m, Local_if m] s = (Inr (Some w), s1) \<and>
        invoke (impl_WalletDelete B w a pass) (Call_WalletDelete w a) s1 = (Inr (), s'))"

text \<open>Every successful round makes the number of claiming backends smaller.\<close>

definition each_round_decreases :: "'w backends \<Rightarrow> MultiWallet \<Rightarrow> address \<Rightarrow> string \<Rightarrow> bool" where
  "each_round_decreases B m a pass \<longleftrightarrow>
     (\<forall>s s'. delete_round B m a pass s s' \<longrightarrow>
        claimants B a (configured [Remote_if m, Ledger_if m, Local_if m]) (world s') <
        claimants B a (configured [Remote_if m, Ledger_if m, Local_if m]) (world s))"

text \<open>
  The queries \<open>WalletHas\<close> of the wallets \<open>ws\<close> do not change what these wallets answer:
  a query may change the world, but not the answer of any later query.
\<close>

definition answers_kept :: "'w backends \<Rightarrow> address \<Rightarrow> getif list \<Rightarrow> bool" where
  "answers_kept B a ws \<longleftrightarrow>
     (\<forall>w \<in> set ws. \<forall>w' \<in> set ws. \<forall>x.
        fst (impl_WalletHas B w' a (snd (impl_WalletHas B w a x))) = fst (impl_WalletHas B w' a x))"

subsection \<open>Two more implementations of the backends\<close>

text \<open>
  A key store whose index of addresses has outlived the key material: \<open>WalletHas\<close>
  answers from the index, while \<open>WalletSign\<close> and \<open>WalletExport\<close> find no key and fail
  with "key not found", as the backend contract lets them.
\<close>

definition forgetful_backends :: "stores backends" where
  "forgetful_backends = store_backends
     \<lparr>impl_WalletSign := (\<lambda>w a d meta x. (Failure ''key not found'', x)),
      impl_WalletExport := (\<lambda>w a pw x. (Failure ''key not found'', x))\<rparr>"

text \<open>
  A remote wallet that learns of a key when it is asked for it: a query for an address that
  is still arriving answers false, truthfully, and brings the key in. Its \<open>WalletDelete\<close>
  removes the key it holds.
\<close>

record mirror =
  held :: "address list"
  arriving :: "address list"

definition mirror_backends :: "mirror backends" where
  "mirror_backends = \<lparr>
     impl_WalletNew = (\<lambda>w kt x. (Value (''key-'' @ kt), x\<lparr>held := held x @ [''key-'' @ kt]\<rparr>)),
     impl_WalletHas = (\<lambda>w a x.
        if a \<in> set (held x) then (Value True, x)
        else if a \<in> set (arriving x)
          then (Value False, x\<lparr>held := held x @ [a], arriving := removeAll a (arriving x)\<rparr>)
          else (Value False, x)),
     impl_WalletList = (\<lambda>w x. (Value (Slice (held x)), x)),
     impl_WalletSign = (\<lambda>w a d meta x. (Value (Some d), x)),
     impl_WalletExport = (\<lambda>w a pw x. (Value (Some \<lparr>Type = ''secp256k1'', PrivateKey = []\<rparr>), x)),
     impl_WalletImport = (\<lambda>w info x. (Value ''imported'', x\<lparr>held := held x @ [''imported'']\<rparr>)),
     impl_WalletDelete = (\<lambda>w a pw x. (Value (), x\<lparr>held := removeAll a (held x)\<rparr>)),
     impl_WalletChangePasswd = (\<lambda>w pw x. (Value True, x)),
     impl_DeleteKey2 = (\<lambda>w a x. (Value (), x\<lparr>held := removeAll a (held x)\<rparr>)),
     impl_WalletClearPasswd = (\<lambda>w x. (Value True, x)),
     impl_WalletIsLock = (\<lambda>w x. (Value False, x)),
     impl_WalletLock = (\<lambda>w x. (Value (), x)),
     impl_WalletUnlock = (\<lambda>w pw x. (Value (), x)),
     impl_WalletSignMessage2 = (\<lambda>w k msg pw x. (Value (Some msg), x))\<rparr>"

section \<open>Properties of the router\<close>

lemmas router_defs = find_wallet_def Get_def invoke_def Local_if_def Remote_if_def Ledger_if_def
  configured_def declined_def

lemmas store_defs = store_backends_def serve_def start_def wallets_RL_def wallets_all_def
  wallets_L_def wallets_none_def wallets_R_def

lemmas run_defs = asked_def has_calls_def world_after_def

lemmas mirror_defs = mirror_backends_def wallets_R_def

subsection \<open>The presence search\<close>

lemma nonNil_configured: "nonNil wallets = configured wallets"
  by (induction wallets) (auto simp: configured_def Get_def split: option.splits)

lemma declined_Nil [simp]: "declined a [] = []"
  by (simp add: declined_def)

lemma declined_Cons [simp]:
  "declined a (w # ws) = Call_WalletHas w a (Value False) # declined a ws"
  by (simp add: declined_def)

lemma declined_append [simp]: "declined a (xs @ ys) = declined a xs @ declined a ys"
  by (simp add: declined_def)

lemma declined_member: "ev \<in> set (declined a ws) \<Longrightarrow> \<exists>w. ev = Call_WalletHas w a (Value False)"
  by (auto simp: declined_def)

lemma declined_last_reply:
  assumes "declined a ws = xs @ [Call_WalletHas w b rep]"
  shows "rep = Value False"
proof -
  have "Call_WalletHas w b rep \<in> set (declined a ws)" using assms by simp
  then show ?thesis by (auto dest: declined_member)
qed

lemma search_run_step:
  assumes "search_run a ws r evs"
  shows "search_run a (w # ws) r (Call_WalletHas w a (Value False) # evs)"
proof -
  from assms consider
    (none) "r = Inr None" "evs = declined a ws"
    | (some) pre w' post where "ws = pre @ w' # post" "r = Inr (Some w')"
        "evs = declined a pre @ [Call_WalletHas w' a (Value True)]"
    | (err) pre w' post rep e where "ws = pre @ w' # post" "r = Inl e" "from_backend rep = Inl e"
        "evs = declined a pre @ [Call_WalletHas w' a rep]"
    unfolding search_run_def by blast
  then show ?thesis
  proof cases
    case none
    then show ?thesis by (simp add: search_run_def)
  next
    case some
    then have "w # ws = (w # pre) @ w' # post"
      "Call_WalletHas w a (Value False) # evs = declined a (w # pre) @ [Call_WalletHas w' a (Value True)]"
      by simp_all
    then show ?thesis unfolding search_run_def using some(2) by blast
  next
    case err
    then have "w # ws = (w # pre) @ w' # post"
      "Call_WalletHas w a (Value False) # evs = declined a (w # pre) @ [Call_WalletHas w' a rep]"
      by simp_all
    then show ?thesis unfolding search_run_def using err(2,3) by blast
  qed
qed

lemma search_run_found: "search_run a (w # ws) (Inr (Some w)) [Call_WalletHas w a (Value True)]"
proof -
  have "w # ws = [] @ w # ws"
    "[Call_WalletHas w a (Value True)] = declined a [] @ [Call_WalletHas w a (Value True)]"
    by simp_all
  then show ?thesis unfolding search_run_def by blast
qed

lemma search_run_failed:
  assumes "from_backend rep = Inl e"
  shows "search_run a (w # ws) (Inl e) [Call_WalletHas w a rep]"
proof -
  have "w # ws = [] @ w # ws"
    "[Call_WalletHas w a rep] = declined a [] @ [Call_WalletHas w a rep]"
    by simp_all
  then show ?thesis unfolding search_run_def using assms by blast
qed

lemma find_loop_calls:
  "find_loop B a ws s = (r, s') \<Longrightarrow> \<exists>evs. calls s' = calls s @ evs \<and> search_run a ws r evs"
proof (induction ws arbitrary: s)
  case Nil
  then show ?case by (simp add: search_run_def)
next
  case (Cons w ws)
  obtain rep x where f: "impl_WalletHas B w a (world s) = (rep, x)"
    by (cases "impl_WalletHas B w a (world s)")
  let ?s1 = "\<lparr>world = x, calls = calls s @ [Call_WalletHas w a rep]\<rparr>"
  have inv: "invoke (impl_WalletHas B w a) (Call_WalletHas w a) s = (from_backend rep, ?s1)"
    by (simp add: invoke_def f)
  show ?case
  proof (cases "from_backend rep")
    case (Inl e)
    with inv Cons.prems have "r = Inl e" "s' = ?s1" by auto
    then show ?thesis using search_run_failed [OF Inl] by auto
  next
    case (Inr b)
    then have rep: "rep = Value b" by (cases rep) auto
    show ?thesis
    proof (cases b)
      case True
      with Inr inv Cons.prems have "r = Inr (Some w)" "s' = ?s1" by auto
      then show ?thesis using search_run_found rep True by auto
    next
      case False
      with Inr inv Cons.prems have "find_loop B a ws ?s1 = (r, s')" by auto
      from Cons.IH [OF this] obtain evs where
        "calls s' = calls ?s1 @ evs" "search_run a ws r evs" by blast
      then show ?thesis using search_run_step rep False by auto
    qed
  qed
qed

lemma search_run_none: "search_run a ws r evs \<Longrightarrow> r = Inr None \<longleftrightarrow> evs = declined a ws"
  unfolding search_run_def by (auto dest: declined_last_reply [OF sym])

lemma search_run_some:
  "search_run a ws r evs \<Longrightarrow>
   r = Inr (Some w) \<longleftrightarrow>
     (\<exists>pre post. ws = pre @ w # post \<and> evs = declined a pre @ [Call_WalletHas w a (Value True)])"
  unfolding search_run_def by (auto dest: declined_last_reply [OF sym] declined_last_reply)

lemma search_run_error:
  "search_run a ws r evs \<Longrightarrow>
   r = Inl e \<longleftrightarrow>
     (\<exists>pre w post rep. ws = pre @ w # post \<and> from_backend rep = Inl e \<and>
        evs = declined a pre @ [Call_WalletHas w a rep])"
  unfolding search_run_def by (auto dest: declined_last_reply [OF sym] declined_last_reply)

lemma find_wallet_calls:
  "find_wallet B a wallets s = (r, s') \<Longrightarrow>
   \<exists>evs. calls s' = calls s @ evs \<and> search_run a (configured wallets) r evs"
  unfolding find_wallet_def nonNil_configured by (rule find_loop_calls)

lemma refused_iff [simp]: "refused (w, rep, x) \<longleftrightarrow> rep = Value False"
  by (simp add: refused_def)

lemma interrogate_wallets: "map fst (interrogate B a ws x) = ws"
  by (induction ws arbitrary: x) (auto split: prod.splits)

lemma state_eq: "s = \<lparr>world = world s, calls = calls s\<rparr>"
  by (cases s) simp

lemma find_loop_all_refuse:
  "dropWhile refused (interrogate B a ws (world s)) = [] \<Longrightarrow>
   find_loop B a ws s =
     (Inr None, \<lparr>world = world_after (world s) (interrogate B a ws (world s)),
                calls = calls s @ declined a ws\<rparr>)"
proof (induction ws arbitrary: s)
  case Nil
  then show ?case using state_eq [of s] by (simp add: world_after_def)
next
  case (Cons w ws)
  obtain rep x where f: "impl_WalletHas B w a (world s) = (rep, x)"
    by (cases "impl_WalletHas B w a (world s)")
  let ?s1 = "\<lparr>world = x, calls = calls s @ [Call_WalletHas w a rep]\<rparr>"
  from Cons.prems f have rep: "rep = Value False"
    and rest: "dropWhile refused (interrogate B a ws (world ?s1)) = []"
    by (auto split: if_splits)
  have "find_loop B a (w # ws) s = find_loop B a ws ?s1"
    by (simp add: invoke_def f rep)
  also have "\<dots> = (Inr None, \<lparr>world = world_after (world ?s1) (interrogate B a ws (world ?s1)),
                calls = calls ?s1 @ declined a ws\<rparr>)"
    by (rule Cons.IH [OF rest])
  finally show ?case by (simp add: f rep world_after_def)
qed

lemma find_loop_first_answer:
  "dropWhile refused (interrogate B a ws (world s)) = (w, rep, x) # rest \<Longrightarrow>
   find_loop B a ws s =
     ((case from_backend rep of Inl e \<Rightarrow> Inl e | Inr b \<Rightarrow> Inr (Some w)),
      \<lparr>world = x,
       calls = calls s @ has_calls a (takeWhile refused (interrogate B a ws (world s))) @
         [Call_WalletHas w a rep]\<rparr>)"
proof (induction ws arbitrary: s)
  case Nil
  then show ?case by simp
next
  case (Cons w0 ws)
  obtain rep0 x0 where f: "impl_WalletHas B w0 a (world s) = (rep0, x0)"
    by (cases "impl_WalletHas B w0 a (world s)")
  let ?s1 = "\<lparr>world = x0, calls = calls s @ [Call_WalletHas w0 a rep0]\<rparr>"
  show ?case
  proof (cases "rep0 = Value False")
    case True
    with Cons.prems f
    have rest: "dropWhile refused (interrogate B a ws (world ?s1)) = (w, rep, x) # rest"
      by (simp add:)
    have "find_loop B a (w0 # ws) s = find_loop B a ws ?s1"
      by (simp add: invoke_def f True)
    also note Cons.IH [OF rest]
    finally show ?thesis by (simp add: f True has_calls_def)
  next
    case False
    with Cons.prems f have eq: "w = w0" "rep = rep0" "x = x0"
      by (simp_all add:)
    show ?thesis
    proof (cases rep0)
      case (Value b)
      with False have "b" by simp
      then show ?thesis using Value eq f False
        by (simp add: invoke_def has_calls_def)
    next
      case (Failure msg)
      then show ?thesis using eq f by (simp add: invoke_def has_calls_def)
    next
      case Crash
      then show ?thesis using eq f by (simp add: invoke_def has_calls_def)
    qed
  qed
qed

lemma find_wallet_all_refuse:
  "dropWhile refused (asked B a wallets s) = [] \<Longrightarrow>
   find_wallet B a wallets s =
     (Inr None, \<lparr>world = world_after (world s) (asked B a wallets s),
                calls = calls s @ declined a (configured wallets)\<rparr>)"
  unfolding find_wallet_def nonNil_configured asked_def by (rule find_loop_all_refuse)

lemma find_wallet_first_answer:
  "dropWhile refused (asked B a wallets s) = (w, rep, x) # rest \<Longrightarrow>
   find_wallet B a wallets s =
     ((case from_backend rep of Inl e \<Rightarrow> Inl e | Inr b \<Rightarrow> Inr (Some w)),
      \<lparr>world = x,
       calls = calls s @ has_calls a (takeWhile refused (asked B a wallets s)) @
         [Call_WalletHas w a rep]\<rparr>)"
  unfolding find_wallet_def nonNil_configured asked_def by (rule find_loop_first_answer)

text \<open>
  C1. The search of \<open>WalletHas\<close>, \<open>WalletSign\<close> and \<open>WalletDelete\<close> asks the configured
  backends among Remote, Ledger, Local, in this order and with the nil ones left out, each
  query in the world that the query before it left. When the first backend that does not
  answer false answers true, the search returns this backend as the owner, having called
  exactly the backends up to it, and \<open>WalletHas\<close> returns true. When every configured
  backend answers false, the search returns "no owner" without an error, having called
  each of them once, and \<open>WalletHas\<close> returns false without an error.
\<close>

theorem find_priority_search:
  "map fst (asked B a [Remote_if m, Ledger_if m, Local_if m] s) =
     filter (\<lambda>w. snd w \<noteq> None) [(RemoteWallet, Remote m), (LedgerWallet, Ledger m), (LocalWallet, Local m)] \<and>
   (dropWhile refused (asked B a [Remote_if m, Ledger_if m, Local_if m] s) = (w, Value True, x) # rest \<longrightarrow>
      find_wallet B a [Remote_if m, Ledger_if m, Local_if m] s =
        (Inr (Some w),
         \<lparr>world = x,
          calls = calls s @
            has_calls a (takeWhile refused (asked B a [Remote_if m, Ledger_if m, Local_if m] s)) @
            [Call_WalletHas w a (Value True)]\<rparr>) \<and>
      WalletHas B m a s =
        (Inr True,
         \<lparr>world = x,
          calls = calls s @
            has_calls a (takeWhile refused (asked B a [Remote_if m, Ledger_if m, Local_if m] s)) @
            [Call_WalletHas w a (Value True)]\<rparr>)) \<and>
   (dropWhile refused (asked B a [Remote_if m, Ledger_if m, Local_if m] s) = [] \<longrightarrow>
      find_wallet B a [Remote_if m, Ledger_if m, Local_if m] s =
        (Inr None,
         \<lparr>world = world_after (world s) (asked B a [Remote_if m, Ledger_if m, Local_if m] s),
          calls = calls s @ declined a (configured [Remote_if m, Ledger_if m, Local_if m])\<rparr>) \<and>
      WalletHas B m a s =
        (Inr False,
         \<lparr>world = world_after (world s) (asked B a [Remote_if m, Ledger_if m, Local_if m] s),
          calls = calls s @ declined a (configured [Remote_if m, Ledger_if m, Local_if m])\<rparr>))"
proof -
  let ?ws = "[Remote_if m, Ledger_if m, Local_if m]"
  have "map fst (asked B a ?ws s) =
     filter (\<lambda>w. snd w \<noteq> None) [(RemoteWallet, Remote m), (LedgerWallet, Ledger m), (LocalWallet, Local m)]"
    by (simp add: asked_def interrogate_wallets configured_def Remote_if_def Ledger_if_def
        Local_if_def)
  moreover have "find_wallet B a ?ws s =
        (Inr (Some w), \<lparr>world = x, calls = calls s @
            has_calls a (takeWhile refused (asked B a ?ws s)) @ [Call_WalletHas w a (Value True)]\<rparr>) \<and>
      WalletHas B m a s =
        (Inr True, \<lparr>world = x, calls = calls s @
            has_calls a (takeWhile refused (asked B a ?ws s)) @ [Call_WalletHas w a (Value True)]\<rparr>)"
    if "dropWhile refused (asked B a ?ws s) = (w, Value True, x) # rest"
    using find_wallet_first_answer [OF that] by (simp add: WalletHas_def)
  moreover have "find_wallet B a ?ws s =
        (Inr None, \<lparr>world = world_after (world s) (asked B a ?ws s),
          calls = calls s @ declined a (configured ?ws)\<rparr>) \<and>
      WalletHas B m a s =
        (Inr False, \<lparr>world = world_after (world s) (asked B a ?ws s),
          calls = calls s @ declined a (configured ?ws)\<rparr>)"
    if "dropWhile refused (asked B a ?ws s) = []"
    using find_wallet_all_refuse [OF that] by (simp add: WalletHas_def)
  ultimately show ?thesis by blast
qed

theorem find_priority_search_witness:
  "find_wallet store_backends ''A'' [Remote_if wallets_RL, Ledger_if wallets_RL, Local_if wallets_RL]
     (start \<lparr>remote_keys = [''B''], ledger_keys = [''A''], local_keys = [''A''], unreachable = []\<rparr>)
   = (Inr (Some (LocalWallet, Some 1)),
      \<lparr>world = \<lparr>remote_keys = [''B''], ledger_keys = [''A''], local_keys = [''A''], unreachable = []\<rparr>,
       calls = [Call_WalletHas (RemoteWallet, Some 2) ''A'' (Value False),
                Call_WalletHas (LocalWallet, Some 1) ''A'' (Value True)]\<rparr>) \<and>
   WalletHas store_backends wallets_RL ''A''
     (start \<lparr>remote_keys = [''B''], ledger_keys = [''A''], local_keys = [''A''], unreachable = []\<rparr>)
   = (Inr True,
      \<lparr>world = \<lparr>remote_keys = [''B''], ledger_keys = [''A''], local_keys = [''A''], unreachable = []\<rparr>,
       calls = [Call_WalletHas (RemoteWallet, Some 2) ''A'' (Value False),
                Call_WalletHas (LocalWallet, Some 1) ''A'' (Value True)]\<rparr>) \<and>
   WalletHas store_backends wallets_RL ''C''
     (start \<lparr>remote_keys = [''B''], ledger_keys = [''C''], local_keys = [''A''], unreachable = []\<rparr>)
   = (Inr False,
      \<lparr>world = \<lparr>remote_keys = [''B''], ledger_keys = [''C''], local_keys = [''A''], unreachable = []\<rparr>,
       calls = [Call_WalletHas (RemoteWallet, Some 2) ''C'' (Value False),
                Call_WalletHas (LocalWallet, Some 1) ''C'' (Value False)]\<rparr>)"
proof -
  let ?ws = "[Remote_if wallets_RL, Ledger_if wallets_RL, Local_if wallets_RL]"
  let ?x = "\<lparr>remote_keys = [''B''], ledger_keys = [''A''], local_keys = [''A''], unreachable = []\<rparr>"
  let ?y = "\<lparr>remote_keys = [''B''], ledger_keys = [''C''], local_keys = [''A''], unreachable = []\<rparr>"
  have h1: "dropWhile refused (asked store_backends ''A'' ?ws (start ?x)) =
      ((LocalWallet, Some 1), Value True, ?x) # []"
    by (simp add: router_defs store_defs run_defs)
  have t1: "takeWhile refused (asked store_backends ''A'' ?ws (start ?x)) =
      [((RemoteWallet, Some 2), Value False, ?x)]"
    by (simp add: router_defs store_defs run_defs)
  have h2: "dropWhile refused (asked store_backends ''C'' ?ws (start ?y)) = []"
    by (simp add: router_defs store_defs run_defs)
  have w2: "world_after (world (start ?y)) (asked store_backends ''C'' ?ws (start ?y)) = ?y"
    by (simp add: router_defs store_defs run_defs)
  have c2: "configured ?ws = [(RemoteWallet, Some 2), (LocalWallet, Some 1)]"
    by (simp add: router_defs store_defs)
  from find_priority_search [of store_backends "''A''" wallets_RL "start ?x" "(LocalWallet, Some 1)" ?x "[]"]
    find_priority_search [of store_backends "''C''" wallets_RL "start ?y"]
  show ?thesis using h1 t1 h2 w2 c2 by (simp add: has_calls_def declined_def start_def)
qed

subsection \<open>Failing fast\<close>

lemma delete_round_same:
  assumes "delete_round B m a pass s s'"
  shows "WalletDelete B m a pass s = WalletDelete B m a pass s'"
proof -
  from assms obtain w s1 where
    "find_wallet B a [Remote_if m, Ledger_if m, Local_if m] s = (Inr (Some w), s1)"
    "invoke (impl_WalletDelete B w a pass) (Call_WalletDelete w a) s1 = (Inr (), s')"
    unfolding delete_round_def by blast
  then show ?thesis by (subst WalletDelete.simps) simp
qed

lemma delete_rounds_same:
  assumes "rtranclp (delete_round B m a pass) s0 s"
  shows "WalletDelete B m a pass s0 = WalletDelete B m a pass s"
  using assms by (induction rule: rtranclp_induct) (auto dest: delete_round_same)

lemma WalletDelete_search_fails:
  assumes "find_wallet B a [Remote_if m, Ledger_if m, Local_if m] s = (Inl e, s1)"
  shows "WalletDelete B m a pass s = Some (Inl e, s1)"
  by (subst WalletDelete.simps) (simp add: assms)

text \<open>
  C2. When the first configured backend that does not answer false fails with an error,
  \<open>WalletHas\<close>, \<open>WalletSign\<close>, \<open>WalletExport\<close> and \<open>WalletDelete\<close> return this error.
  The failed query is the last call made and the world is the one that this query left:
  no backend of lower priority is consulted, whatever it would have answered.
  \<open>WalletDelete\<close> returns with the error also when the query fails in a later round of
  its loop, after any number of successful rounds.
\<close>

theorem failed_query_aborts:
  "(dropWhile refused (asked B a [Remote_if m, Ledger_if m, Local_if m] s) = (w, Failure msg, x) # rest \<longrightarrow>
      (let fin = \<lparr>world = x,
                  calls = calls s @
                    has_calls a (takeWhile refused (asked B a [Remote_if m, Ledger_if m, Local_if m] s)) @
                    [Call_WalletHas w a (Failure msg)]\<rparr>
       in WalletHas B m a s = (Inl (Errorf msg), fin) \<and>
          WalletSign B m a toSign meta s = (Inl (Errorf msg), fin) \<and>
          WalletDelete B m a pass s = Some (Inl (Errorf msg), fin) \<and>
          (rtranclp (delete_round B m a pass) s0 s \<longrightarrow>
             WalletDelete B m a pass s0 = Some (Inl (Errorf msg), fin)))) \<and>
   (dropWhile refused (asked B a [Remote_if m, Local_if m] s) = (w', Failure msg', x') # rest' \<longrightarrow>
      WalletExport B m a password s =
        (Inl (Errorf msg'),
         \<lparr>world = x',
          calls = calls s @
            has_calls a (takeWhile refused (asked B a [Remote_if m, Local_if m] s)) @
            [Call_WalletHas w' a (Failure msg')]\<rparr>))"
proof -
  let ?ws = "[Remote_if m, Ledger_if m, Local_if m]"
  have three: "WalletHas B m a s = (Inl (Errorf msg), fin) \<and>
      WalletSign B m a toSign meta s = (Inl (Errorf msg), fin) \<and>
      WalletDelete B m a pass s = Some (Inl (Errorf msg), fin) \<and>
      (rtranclp (delete_round B m a pass) s0 s \<longrightarrow>
         WalletDelete B m a pass s0 = Some (Inl (Errorf msg), fin))"
    if h: "dropWhile refused (asked B a ?ws s) = (w, Failure msg, x) # rest"
      and fin: "fin = \<lparr>world = x, calls = calls s @
          has_calls a (takeWhile refused (asked B a ?ws s)) @ [Call_WalletHas w a (Failure msg)]\<rparr>"
    for fin
  proof -
    from find_wallet_first_answer [OF h] fin
    have f: "find_wallet B a ?ws s = (Inl (Errorf msg), fin)" by simp
    have d: "WalletDelete B m a pass s = Some (Inl (Errorf msg), fin)"
      using f by (rule WalletDelete_search_fails)
    have "WalletDelete B m a pass s0 = Some (Inl (Errorf msg), fin)"
      if "rtranclp (delete_round B m a pass) s0 s"
      using delete_rounds_same [OF that] d by simp
    then show ?thesis using f d by (simp add: WalletHas_def WalletSign_def)
  qed
  have export: "WalletExport B m a password s =
        (Inl (Errorf msg'), \<lparr>world = x', calls = calls s @
            has_calls a (takeWhile refused (asked B a [Remote_if m, Local_if m] s)) @
            [Call_WalletHas w' a (Failure msg')]\<rparr>)"
    if h: "dropWhile refused (asked B a [Remote_if m, Local_if m] s) = (w', Failure msg', x') # rest'"
    using find_wallet_first_answer [OF h] by (simp add: WalletExport_def)
  show ?thesis using three export by (simp add: Let_def)
qed

theorem failed_query_aborts_witness:
  "WalletHas store_backends wallets_RL ''A''
     (start \<lparr>remote_keys = [], ledger_keys = [], local_keys = [''A''], unreachable = [RemoteWallet]\<rparr>)
   = (Inl (Errorf ''unreachable''),
      \<lparr>world = \<lparr>remote_keys = [], ledger_keys = [], local_keys = [''A''], unreachable = [RemoteWallet]\<rparr>,
       calls = [Call_WalletHas (RemoteWallet, Some 2) ''A'' (Failure ''unreachable'')]\<rparr>) \<and>
   WalletSign store_backends wallets_RL ''A'' [1, 2] []
     (start \<lparr>remote_keys = [], ledger_keys = [], local_keys = [''A''], unreachable = [RemoteWallet]\<rparr>)
   = (Inl (Errorf ''unreachable''),
      \<lparr>world = \<lparr>remote_keys = [], ledger_keys = [], local_keys = [''A''], unreachable = [RemoteWallet]\<rparr>,
       calls = [Call_WalletHas (RemoteWallet, Some 2) ''A'' (Failure ''unreachable'')]\<rparr>) \<and>
   WalletExport store_backends wallets_RL ''A'' ''pw''
     (start \<lparr>remote_keys = [], ledger_keys = [], local_keys = [''A''], unreachable = [RemoteWallet]\<rparr>)
   = (Inl (Errorf ''unreachable''),
      \<lparr>world = \<lparr>remote_keys = [], ledger_keys = [], local_keys = [''A''], unreachable = [RemoteWallet]\<rparr>,
       calls = [Call_WalletHas (RemoteWallet, Some 2) ''A'' (Failure ''unreachable'')]\<rparr>) \<and>
   WalletDelete store_backends wallets_RL ''A'' ''pw''
     (start \<lparr>remote_keys = [], ledger_keys = [], local_keys = [''A''], unreachable = [RemoteWallet]\<rparr>)
   = Some (Inl (Errorf ''unreachable''),
      \<lparr>world = \<lparr>remote_keys = [], ledger_keys = [], local_keys = [''A''], unreachable = [RemoteWallet]\<rparr>,
       calls = [Call_WalletHas (RemoteWallet, Some 2) ''A'' (Failure ''unreachable'')]\<rparr>) \<and>
   WalletDelete store_backends wallets_RL ''A'' ''pw''
     (start \<lparr>remote_keys = [''A''], ledger_keys = [], local_keys = [''A''], unreachable = [LocalWallet]\<rparr>)
   = Some (Inl (Errorf ''unreachable''),
      \<lparr>world = \<lparr>remote_keys = [], ledger_keys = [], local_keys = [''A''], unreachable = [LocalWallet]\<rparr>,
       calls = [Call_WalletHas (RemoteWallet, Some 2) ''A'' (Value True),
                Call_WalletDelete (RemoteWallet, Some 2) ''A'' (Value ()),
                Call_WalletHas (RemoteWallet, Some 2) ''A'' (Value False),
                Call_WalletHas (LocalWallet, Some 1) ''A'' (Failure ''unreachable'')]\<rparr>)"
proof -
  let ?ws = "[Remote_if wallets_RL, Ledger_if wallets_RL, Local_if wallets_RL]"
  let ?x = "\<lparr>remote_keys = [], ledger_keys = [], local_keys = [''A''], unreachable = [RemoteWallet]\<rparr>"
  let ?z = "\<lparr>remote_keys = [''A''], ledger_keys = [], local_keys = [''A''], unreachable = [LocalWallet]\<rparr>"
  let ?y = "\<lparr>remote_keys = [], ledger_keys = [], local_keys = [''A''], unreachable = [LocalWallet]\<rparr>"
  let ?t = "\<lparr>world = ?y, calls = [Call_WalletHas (RemoteWallet, Some 2) ''A'' (Value True),
                Call_WalletDelete (RemoteWallet, Some 2) ''A'' (Value ())]\<rparr>"
  have h3: "dropWhile refused (asked store_backends ''A'' ?ws (start ?x)) =
      ((RemoteWallet, Some 2), Failure ''unreachable'', ?x) # [((LocalWallet, Some 1), Value True, ?x)]"
    by (simp add: router_defs store_defs run_defs)
  have t3: "takeWhile refused (asked store_backends ''A'' ?ws (start ?x)) = []"
    by (simp add: router_defs store_defs run_defs)
  have h2: "dropWhile refused
      (asked store_backends ''A'' [Remote_if wallets_RL, Local_if wallets_RL] (start ?x)) =
      ((RemoteWallet, Some 2), Failure ''unreachable'', ?x) # [((LocalWallet, Some 1), Value True, ?x)]"
    by (simp add: router_defs store_defs run_defs)
  have t2: "takeWhile refused
      (asked store_backends ''A'' [Remote_if wallets_RL, Local_if wallets_RL] (start ?x)) = []"
    by (simp add: router_defs store_defs run_defs)
  let ?t1 = "\<lparr>world = ?z, calls = [Call_WalletHas (RemoteWallet, Some 2) ''A'' (Value True)]\<rparr>"
  have "find_wallet store_backends ''A'' ?ws (start ?z) = (Inr (Some (RemoteWallet, Some 2)), ?t1)"
    by (simp add: router_defs store_defs)
  moreover have "invoke (impl_WalletDelete store_backends (RemoteWallet, Some 2) ''A'' ''pw'')
      (Call_WalletDelete (RemoteWallet, Some 2) ''A'') ?t1 = (Inr (), ?t)"
    by (simp add: router_defs store_defs)
  ultimately have round: "delete_round store_backends wallets_RL ''A'' ''pw'' (start ?z) ?t"
    unfolding delete_round_def by blast
  then have rounds: "rtranclp (delete_round store_backends wallets_RL ''A'' ''pw'') (start ?z) ?t"
    by (rule r_into_rtranclp)
  have h4: "dropWhile refused (asked store_backends ''A'' ?ws ?t) =
      ((LocalWallet, Some 1), Failure ''unreachable'', ?y) # []"
    by (simp add: router_defs store_defs run_defs)
  have t4: "takeWhile refused (asked store_backends ''A'' ?ws ?t) =
      [((RemoteWallet, Some 2), Value False, ?y)]"
    by (simp add: router_defs store_defs run_defs)
  from failed_query_aborts [of store_backends "''A''" wallets_RL "start ?x" "(RemoteWallet, Some 2)"
      "''unreachable''" ?x "[((LocalWallet, Some 1), Value True, ?x)]" "[1, 2]" "[]" "''pw''" "start ?x"
      "(RemoteWallet, Some 2)" "''unreachable''" ?x "[((LocalWallet, Some 1), Value True, ?x)]" "''pw''"]
    failed_query_aborts [where B = store_backends and a = "''A''" and m = wallets_RL and s = ?t
      and w = "(LocalWallet, Some 1)" and msg = "''unreachable''" and x = ?y and rest = "[]"
      and pass = "''pw''" and ?s0.0 = "start ?z"]
  show ?thesis using h3 t3 h2 t2 rounds h4 t4
    by (simp add: Let_def has_calls_def start_def)
qed

subsection \<open>Creation and import\<close>

lemma Get_eq_None [simp]: "Get (k, p) = None \<longleftrightarrow> p = None"
  by (simp add: Get_def split: option.splits)

text \<open>
  C3. \<open>WalletNew\<close> and \<open>WalletImport\<close> route by key type and do not search: the call goes
  to Remote when Remote is configured; otherwise to Ledger when the key type is the ledger
  type and Ledger is configured, and to Local when the key type is another one and Local is
  configured; otherwise it fails with an error of the router and calls no backend. So with
  Remote and Local configured a key of the ledger type is created by Remote, and with Local
  alone the creation of a key of the ledger type fails.
\<close>

theorem creation_routes_by_key_type:
  "WalletNew B m keyType s =
     (if Remote m \<noteq> None then
        invoke (impl_WalletNew B (Remote_if m) keyType) (Call_WalletNew (Remote_if m) keyType) s
      else if keyType = KTSecp256k1Ledger \<and> Ledger m \<noteq> None then
        invoke (impl_WalletNew B (Ledger_if m) keyType) (Call_WalletNew (Ledger_if m) keyType) s
      else if keyType \<noteq> KTSecp256k1Ledger \<and> Local m \<noteq> None then
        invoke (impl_WalletNew B (Local_if m) keyType) (Call_WalletNew (Local_if m) keyType) s
      else (Inl (Errorf (''no wallet backends supporting key type: '' @ keyType)), s)) \<and>
   WalletImport B m (Some ki) s =
     (if Remote m \<noteq> None then
        invoke (impl_WalletImport B (Remote_if m) (Some ki)) (Call_WalletImport (Remote_if m)) s
      else if Type ki = KTSecp256k1Ledger \<and> Ledger m \<noteq> None then
        invoke (impl_WalletImport B (Ledger_if m) (Some ki)) (Call_WalletImport (Ledger_if m)) s
      else if Type ki \<noteq> KTSecp256k1Ledger \<and> Local m \<noteq> None then
        invoke (impl_WalletImport B (Local_if m) (Some ki)) (Call_WalletImport (Local_if m)) s
      else (Inl (Errorf ''no wallet backends configured''), s)) \<and>
   (Remote m \<noteq> None \<and> Local m \<noteq> None \<longrightarrow>
      WalletNew B m KTSecp256k1Ledger s =
        invoke (impl_WalletNew B (Remote_if m) KTSecp256k1Ledger)
          (Call_WalletNew (Remote_if m) KTSecp256k1Ledger) s) \<and>
   (Remote m = None \<and> Ledger m = None \<and> Local m \<noteq> None \<longrightarrow>
      (\<exists>msg. WalletNew B m KTSecp256k1Ledger s = (Inl (Errorf msg), s)))"
  by (auto simp: WalletNew_def WalletImport_def Remote_if_def Ledger_if_def Local_if_def
      simp del: not_None_eq)

theorem creation_routes_by_key_type_witness:
  "WalletNew store_backends wallets_RL KTSecp256k1Ledger
     (start \<lparr>remote_keys = [], ledger_keys = [], local_keys = [], unreachable = []\<rparr>)
   = (Inr ''key-secp256k1-ledger'',
      \<lparr>world = \<lparr>remote_keys = [''key-secp256k1-ledger''], ledger_keys = [], local_keys = [],
                unreachable = []\<rparr>,
       calls = [Call_WalletNew (RemoteWallet, Some 2) KTSecp256k1Ledger
                  (Value ''key-secp256k1-ledger'')]\<rparr>) \<and>
   WalletNew store_backends wallets_L KTSecp256k1Ledger
     (start \<lparr>remote_keys = [], ledger_keys = [], local_keys = [], unreachable = []\<rparr>)
   = (Inl (Errorf ''no wallet backends supporting key type: secp256k1-ledger''),
      start \<lparr>remote_keys = [], ledger_keys = [], local_keys = [], unreachable = []\<rparr>) \<and>
   WalletNew store_backends wallets_L ''bls''
     (start \<lparr>remote_keys = [], ledger_keys = [], local_keys = [], unreachable = []\<rparr>)
   = (Inr ''key-bls'',
      \<lparr>world = \<lparr>remote_keys = [], ledger_keys = [], local_keys = [''key-bls''], unreachable = []\<rparr>,
       calls = [Call_WalletNew (LocalWallet, Some 1) ''bls'' (Value ''key-bls'')]\<rparr>)"
  using
    creation_routes_by_key_type [of store_backends wallets_RL KTSecp256k1Ledger
      "start \<lparr>remote_keys = [], ledger_keys = [], local_keys = [], unreachable = []\<rparr>"]
    creation_routes_by_key_type [of store_backends wallets_L KTSecp256k1Ledger
      "start \<lparr>remote_keys = [], ledger_keys = [], local_keys = [], unreachable = []\<rparr>"]
    creation_routes_by_key_type [of store_backends wallets_L "''bls''"
      "start \<lparr>remote_keys = [], ledger_keys = [], local_keys = [], unreachable = []\<rparr>"]
  by (simp add: router_defs store_defs KTSecp256k1Ledger_def)

text \<open>
  C10. \<open>WalletImport\<close> reads \<open>info.Type\<close> first: with a nil \<open>info\<close> it panics, whatever
  the configuration and before any backend is called, and there is no error branch for it.
  With a non-nil \<open>info\<close> the router itself does not panic: a panic can only come out of
  the backend's own \<open>WalletImport\<close>, and with no backend configured the call returns the
  router's error.
\<close>

theorem import_dereferences_key_info:
  "WalletImport B m None s = (Inl Panic, s) \<and>
   (fst (WalletImport B m (Some ki) s) = Inl Panic \<longrightarrow>
      (\<exists>w. calls (snd (WalletImport B m (Some ki) s)) = calls s @ [Call_WalletImport w Crash])) \<and>
   (Remote m = None \<and> Ledger m = None \<and> Local m = None \<longrightarrow>
      WalletImport B m (Some ki) s = (Inl (Errorf ''no wallet backends configured''), s))"
proof -
  have "\<exists>w. calls (snd (WalletImport B m (Some ki) s)) = calls s @ [Call_WalletImport w Crash]"
    if p: "fst (WalletImport B m (Some ki) s) = Inl Panic"
  proof -
    let ?l = "if Type ki = KTSecp256k1Ledger then Ledger_if m else Local_if m"
    show ?thesis
    proof (cases "firstNonNil [Remote_if m, ?l]")
      case None
      with p show ?thesis by (simp add: WalletImport_def)
    next
      case (Some w)
      then have eq: "WalletImport B m (Some ki) s =
          invoke (impl_WalletImport B w (Some ki)) (Call_WalletImport w) s"
        by (simp add: WalletImport_def)
      obtain rep x where f: "impl_WalletImport B w (Some ki) (world s) = (rep, x)"
        by (cases "impl_WalletImport B w (Some ki) (world s)")
      with p eq have "from_backend rep = Inl Panic" by (simp add: invoke_def)
      then have "rep = Crash" by (cases rep) auto
      with eq f show ?thesis by (auto simp: invoke_def)
    qed
  qed
  moreover have "WalletImport B m None s = (Inl Panic, s)"
    by (simp add: WalletImport_def)
  moreover have "WalletImport B m (Some ki) s = (Inl (Errorf ''no wallet backends configured''), s)"
    if "Remote m = None \<and> Ledger m = None \<and> Local m = None"
    using that
    by (simp add: WalletImport_def Remote_if_def Ledger_if_def Local_if_def Let_def Get_def)
  ultimately show ?thesis by blast
qed

theorem import_dereferences_key_info_witness:
  "WalletImport store_backends wallets_none None
     (start \<lparr>remote_keys = [], ledger_keys = [], local_keys = [], unreachable = []\<rparr>)
   = (Inl Panic, start \<lparr>remote_keys = [], ledger_keys = [], local_keys = [], unreachable = []\<rparr>) \<and>
   WalletImport store_backends wallets_none (Some \<lparr>Type = ''bls'', PrivateKey = [7]\<rparr>)
     (start \<lparr>remote_keys = [], ledger_keys = [], local_keys = [], unreachable = []\<rparr>)
   = (Inl (Errorf ''no wallet backends configured''),
      start \<lparr>remote_keys = [], ledger_keys = [], local_keys = [], unreachable = []\<rparr>)"
  using import_dereferences_key_info [of store_backends wallets_none
      "start \<lparr>remote_keys = [], ledger_keys = [], local_keys = [], unreachable = []\<rparr>"
      "\<lparr>Type = ''bls'', PrivateKey = [7]\<rparr>"]
  by (simp add: wallets_none_def)
subsection \<open>No backend configured\<close>

text \<open>
  C9. With no backend configured \<open>nonNil\<close> yields no wallet, \<open>WalletList\<close> returns the
  empty, non-nil slice without an error and without calling anything, and the presence
  search finds no owner without an error.
\<close>

theorem no_backend_configured:
  "nonNil [Remote_if \<lparr>Local = None, Remote = None, Ledger = None\<rparr>,
           Ledger_if \<lparr>Local = None, Remote = None, Ledger = None\<rparr>,
           Local_if \<lparr>Local = None, Remote = None, Ledger = None\<rparr>] = [] \<and>
   WalletList B \<lparr>Local = None, Remote = None, Ledger = None\<rparr> s = (Inr (Slice []), s) \<and>
   find_wallet B a [Remote_if \<lparr>Local = None, Remote = None, Ledger = None\<rparr>,
                    Ledger_if \<lparr>Local = None, Remote = None, Ledger = None\<rparr>,
                    Local_if \<lparr>Local = None, Remote = None, Ledger = None\<rparr>] s = (Inr None, s) \<and>
   WalletHas B \<lparr>Local = None, Remote = None, Ledger = None\<rparr> a s = (Inr False, s)"
  by (simp add: WalletList_def WalletHas_def find_wallet_def Get_def
      Remote_if_def Ledger_if_def Local_if_def)

theorem no_backend_configured_witness:
  "WalletList store_backends \<lparr>Local = None, Remote = None, Ledger = None\<rparr>
     (start \<lparr>remote_keys = [''A''], ledger_keys = [], local_keys = [''B''], unreachable = []\<rparr>)
   = (Inr (Slice []),
      start \<lparr>remote_keys = [''A''], ledger_keys = [], local_keys = [''B''], unreachable = []\<rparr>) \<and>
   Slice ([] :: address list) \<noteq> NilSlice \<and>
   WalletHas store_backends \<lparr>Local = None, Remote = None, Ledger = None\<rparr> ''A''
     (start \<lparr>remote_keys = [''A''], ledger_keys = [], local_keys = [''B''], unreachable = []\<rparr>)
   = (Inr False,
      start \<lparr>remote_keys = [''A''], ledger_keys = [], local_keys = [''B''], unreachable = []\<rparr>)"
  using no_backend_configured [of store_backends
      "start \<lparr>remote_keys = [''A''], ledger_keys = [], local_keys = [''B''], unreachable = []\<rparr>" "''A''"]
  by simp

subsection \<open>Local-only operations\<close>

text \<open>
  C4. Each local-only operation is one call of the Local backend's method and nothing
  else: the result, the new world and the recorded call are those of this one call,
  whatever Remote and Ledger are. With a nil Local pointer the call fails with the error
  "no backend available" that the spec gives to an unconfigured Local backend, and the
  world stays as it is.
\<close>

theorem local_only_forwarding:
  "(Local m = Some r \<longrightarrow>
      WalletChangePasswd B m newPasswd s =
        (case impl_WalletChangePasswd B (LocalWallet, Some r) newPasswd (world s) of (rep, x) \<Rightarrow>
           (from_backend rep,
            \<lparr>world = x, calls = calls s @ [Call_WalletChangePasswd (LocalWallet, Some r) rep]\<rparr>)) \<and>
      WalletClearPasswd B m s =
        (case impl_WalletClearPasswd B (LocalWallet, Some r) (world s) of (rep, x) \<Rightarrow>
           (from_backend rep,
            \<lparr>world = x, calls = calls s @ [Call_WalletClearPasswd (LocalWallet, Some r) rep]\<rparr>)) \<and>
      WalletIsLock B m s =
        (case impl_WalletIsLock B (LocalWallet, Some r) (world s) of (rep, x) \<Rightarrow>
           (from_backend rep,
            \<lparr>world = x, calls = calls s @ [Call_WalletIsLock (LocalWallet, Some r) rep]\<rparr>)) \<and>
      WalletLock B m s =
        (case impl_WalletLock B (LocalWallet, Some r) (world s) of (rep, x) \<Rightarrow>
           (from_backend rep,
            \<lparr>world = x, calls = calls s @ [Call_WalletLock (LocalWallet, Some r) rep]\<rparr>)) \<and>
      WalletUnlock B m password s =
        (case impl_WalletUnlock B (LocalWallet, Some r) password (world s) of (rep, x) \<Rightarrow>
           (from_backend rep,
            \<lparr>world = x, calls = calls s @ [Call_WalletUnlock (LocalWallet, Some r) rep]\<rparr>)) \<and>
      WalletSignMessage2 B m k msg passwd s =
        (case impl_WalletSignMessage2 B (LocalWallet, Some r) k msg passwd (world s) of (rep, x) \<Rightarrow>
           (from_backend rep,
            \<lparr>world = x, calls = calls s @ [Call_WalletSignMessage2 (LocalWallet, Some r) k rep]\<rparr>)) \<and>
      DeleteKey2 B m addr s =
        (case impl_DeleteKey2 B (LocalWallet, Some r) addr (world s) of (rep, x) \<Rightarrow>
           (from_backend rep,
            \<lparr>world = x, calls = calls s @ [Call_DeleteKey2 (LocalWallet, Some r) addr rep]\<rparr>))) \<and>
   (Local m = None \<longrightarrow>
      WalletChangePasswd B m newPasswd s =
        (Inl (Errorf NoBackendAvailable),
         \<lparr>world = world s,
          calls = calls s @ [Call_WalletChangePasswd (LocalWallet, None) (Failure NoBackendAvailable)]\<rparr>) \<and>
      WalletClearPasswd B m s =
        (Inl (Errorf NoBackendAvailable),
         \<lparr>world = world s,
          calls = calls s @ [Call_WalletClearPasswd (LocalWallet, None) (Failure NoBackendAvailable)]\<rparr>) \<and>
      WalletIsLock B m s =
        (Inl (Errorf NoBackendAvailable),
         \<lparr>world = world s,
          calls = calls s @ [Call_WalletIsLock (LocalWallet, None) (Failure NoBackendAvailable)]\<rparr>) \<and>
      WalletLock B m s =
        (Inl (Errorf NoBackendAvailable),
         \<lparr>world = world s,
          calls = calls s @ [Call_WalletLock (LocalWallet, None) (Failure NoBackendAvailable)]\<rparr>) \<and>
      WalletUnlock B m password s =
        (Inl (Errorf NoBackendAvailable),
         \<lparr>world = world s,
          calls = calls s @ [Call_WalletUnlock (LocalWallet, None) (Failure NoBackendAvailable)]\<rparr>) \<and>
      WalletSignMessage2 B m k msg passwd s =
        (Inl (Errorf NoBackendAvailable),
         \<lparr>world = world s,
          calls = calls s @ [Call_WalletSignMessage2 (LocalWallet, None) k (Failure NoBackendAvailable)]\<rparr>) \<and>
      DeleteKey2 B m addr s =
        (Inl (Errorf NoBackendAvailable),
         \<lparr>world = world s,
          calls = calls s @ [Call_DeleteKey2 (LocalWallet, None) addr (Failure NoBackendAvailable)]\<rparr>))"
  by (simp add: WalletChangePasswd_def WalletClearPasswd_def WalletIsLock_def WalletLock_def
      WalletUnlock_def WalletSignMessage2_def DeleteKey2_def Local_if_def invoke_def
      local_method_def)

theorem local_only_forwarding_witness:
  "WalletLock store_backends wallets_all
     (start \<lparr>remote_keys = [''A''], ledger_keys = [''B''], local_keys = [''C''], unreachable = []\<rparr>)
   = (Inr (),
      \<lparr>world = \<lparr>remote_keys = [''A''], ledger_keys = [''B''], local_keys = [''C''], unreachable = []\<rparr>,
       calls = [Call_WalletLock (LocalWallet, Some 1) (Value ())]\<rparr>) \<and>
   WalletIsLock store_backends wallets_all
     (start \<lparr>remote_keys = [''A''], ledger_keys = [''B''], local_keys = [''C''],
             unreachable = [RemoteWallet, LedgerWallet]\<rparr>)
   = (Inr False,
      \<lparr>world = \<lparr>remote_keys = [''A''], ledger_keys = [''B''], local_keys = [''C''],
                unreachable = [RemoteWallet, LedgerWallet]\<rparr>,
       calls = [Call_WalletIsLock (LocalWallet, Some 1) (Value False)]\<rparr>) \<and>
   WalletUnlock store_backends wallets_R ''pw''
     (start \<lparr>remote_keys = [''A''], ledger_keys = [], local_keys = [], unreachable = []\<rparr>)
   = (Inl (Errorf ''no wallet backends configured''),
      \<lparr>world = \<lparr>remote_keys = [''A''], ledger_keys = [], local_keys = [], unreachable = []\<rparr>,
       calls = [Call_WalletUnlock (LocalWallet, None) (Failure ''no wallet backends configured'')]\<rparr>)"
  using
    local_only_forwarding [of wallets_all 1 store_backends _
      "start \<lparr>remote_keys = [''A''], ledger_keys = [''B''], local_keys = [''C''], unreachable = []\<rparr>"]
    local_only_forwarding [of wallets_all 1 store_backends _
      "start \<lparr>remote_keys = [''A''], ledger_keys = [''B''], local_keys = [''C''],
             unreachable = [RemoteWallet, LedgerWallet]\<rparr>"]
    local_only_forwarding [of wallets_R _ store_backends _
      "start \<lparr>remote_keys = [''A''], ledger_keys = [], local_keys = [], unreachable = []\<rparr>" "''pw''"]
  by (simp add: store_defs wallets_R_def NoBackendAvailable_def)

subsection \<open>Searching and delegating\<close>

lemma search_run_receivers:
  assumes "search_run a ws r evs"
  shows "receiver ` set evs \<subseteq> set ws"
  using assms unfolding search_run_def by (auto simp: declined_def)

lemma search_run_owner: "search_run a ws (Inr (Some w)) evs \<Longrightarrow> w \<in> set ws"
  unfolding search_run_def by auto

lemma declined_snoc_neq:
  assumes "\<And>w b rep. ev \<noteq> Call_WalletHas w b rep"
  shows "evs @ [ev] \<noteq> declined a ws"
proof
  assume "evs @ [ev] = declined a ws"
  then have "ev \<in> set (declined a ws)" by (metis in_set_conv_decomp)
  then obtain w where "ev = Call_WalletHas w a (Value False)" by (blast dest: declined_member)
  then show False using assms by blast
qed

lemma WalletSign_cases:
  assumes f: "find_wallet B a [Remote_if m, Ledger_if m, Local_if m] s = (r0, s0)"
  shows "WalletSign B m a toSign meta s =
     (case r0 of Inl e \<Rightarrow> (Inl e, s0)
      | Inr None \<Rightarrow> (Inl (Errorf ''key not found''), s0)
      | Inr (Some w) \<Rightarrow> invoke (impl_WalletSign B w a toSign meta) (Call_WalletSign w a) s0)"
  by (simp add: WalletSign_def f split: sum.splits option.splits)

lemma WalletExport_cases:
  assumes f: "find_wallet B a [Remote_if m, Local_if m] s = (r0, s0)"
  shows "WalletExport B m a password s =
     (case r0 of Inl e \<Rightarrow> (Inl e, s0)
      | Inr None \<Rightarrow> (Inl (Errorf ''key not found''), s0)
      | Inr (Some w) \<Rightarrow> invoke (impl_WalletExport B w a password) (Call_WalletExport w a) s0)"
  by (simp add: WalletExport_def f split: sum.splits option.splits)


lemma WalletSign_key_not_found:
  "fst (WalletSign B m a toSign meta s) = Inl (Errorf ''key not found'') \<longleftrightarrow>
     fst (find_wallet B a [Remote_if m, Ledger_if m, Local_if m] s) = Inr None \<or>
     fst (find_wallet B a [Remote_if m, Ledger_if m, Local_if m] s) = Inl (Errorf ''key not found'') \<or>
     (\<exists>w. fst (find_wallet B a [Remote_if m, Ledger_if m, Local_if m] s) = Inr (Some w) \<and>
        fst (impl_WalletSign B w a toSign meta
          (world (snd (find_wallet B a [Remote_if m, Ledger_if m, Local_if m] s)))) =
        Failure ''key not found'')"
proof -
  obtain r0 s0 where f: "find_wallet B a [Remote_if m, Ledger_if m, Local_if m] s = (r0, s0)"
    by (cases "find_wallet B a [Remote_if m, Ledger_if m, Local_if m] s")
  note sign = WalletSign_cases [OF f, of toSign meta]
  show ?thesis
  proof (cases r0)
    case (Inl e)
    then show ?thesis using sign f by auto
  next
    case (Inr ow)
    show ?thesis
    proof (cases ow)
      case None
      then show ?thesis using Inr sign f by simp
    next
      case (Some w)
      obtain rep y where i: "impl_WalletSign B w a toSign meta (world s0) = (rep, y)"
        by (cases "impl_WalletSign B w a toSign meta (world s0)")
      have "from_backend rep = Inl (Errorf ''key not found'') \<longleftrightarrow> rep = Failure ''key not found''"
        by (cases rep) auto
      then show ?thesis using Inr Some sign f i by (simp add: invoke_def)
    qed
  qed
qed

lemma WalletExport_key_not_found:
  "fst (WalletExport B m a password s) = Inl (Errorf ''key not found'') \<longleftrightarrow>
     fst (find_wallet B a [Remote_if m, Local_if m] s) = Inr None \<or>
     fst (find_wallet B a [Remote_if m, Local_if m] s) = Inl (Errorf ''key not found'') \<or>
     (\<exists>w. fst (find_wallet B a [Remote_if m, Local_if m] s) = Inr (Some w) \<and>
        fst (impl_WalletExport B w a password
          (world (snd (find_wallet B a [Remote_if m, Local_if m] s)))) =
        Failure ''key not found'')"
proof -
  obtain r0 s0 where f: "find_wallet B a [Remote_if m, Local_if m] s = (r0, s0)"
    by (cases "find_wallet B a [Remote_if m, Local_if m] s")
  note export = WalletExport_cases [OF f, of password]
  show ?thesis
  proof (cases r0)
    case (Inl e)
    then show ?thesis using export f by auto
  next
    case (Inr ow)
    show ?thesis
    proof (cases ow)
      case None
      then show ?thesis using Inr export f by simp
    next
      case (Some w)
      obtain rep y where i: "impl_WalletExport B w a password (world s0) = (rep, y)"
        by (cases "impl_WalletExport B w a password (world s0)")
      have "from_backend rep = Inl (Errorf ''key not found'') \<longleftrightarrow> rep = Failure ''key not found''"
        by (cases rep) auto
      then show ?thesis using Inr Some export f i by (simp add: invoke_def)
    qed
  qed
qed

lemma WalletExport_not_Ledger:
  "\<exists>evs. calls (snd (WalletExport B m a password s)) = calls s @ evs \<and>
     (\<forall>ev \<in> set evs. fst (receiver ev) \<noteq> LedgerWallet)"
proof -
  obtain r0 s0 where f: "find_wallet B a [Remote_if m, Local_if m] s = (r0, s0)"
    by (cases "find_wallet B a [Remote_if m, Local_if m] s")
  from find_wallet_calls [OF f] obtain evs where
    c: "calls s0 = calls s @ evs" and
    run: "search_run a (configured [Remote_if m, Local_if m]) r0 evs" by blast
  have ws: "\<forall>w \<in> set (configured [Remote_if m, Local_if m]). fst w \<noteq> LedgerWallet"
    by (auto simp: configured_def Remote_if_def Local_if_def)
  have rec: "\<forall>ev \<in> set evs. fst (receiver ev) \<noteq> LedgerWallet"
    using search_run_receivers [OF run] ws by blast
  note export = WalletExport_cases [OF f, of password]
  show ?thesis
  proof (cases r0)
    case (Inl e)
    then show ?thesis using export f c rec by simp
  next
    case (Inr ow)
    show ?thesis
    proof (cases ow)
      case None
      then show ?thesis using Inr export f c rec by simp
    next
      case (Some w)
      obtain rep y where i: "impl_WalletExport B w a password (world s0) = (rep, y)"
        by (cases "impl_WalletExport B w a password (world s0)")
      have "fst w \<noteq> LedgerWallet"
        using search_run_owner run Inr Some ws by blast
      then have "\<forall>ev \<in> set (evs @ [Call_WalletExport w a rep]). fst (receiver ev) \<noteq> LedgerWallet"
        using rec by simp
      then show ?thesis using Inr Some export f c i by (simp add: invoke_def)
    qed
  qed
qed

text \<open>
  C8. \<open>WalletSign\<close>, searching Remote, Ledger, Local, and \<open>WalletExport\<close>, searching
  Remote, Local, return the error "key not found" when every configured backend of their
  search answers false. When the search finds an owner, the result is the result of the
  owner's own method, unchanged. So the error "key not found" comes out exactly when the
  search ends with no owner, or the search itself fails with this error, or the owner's own
  method does. No call of \<open>WalletExport\<close> goes to the Ledger backend.
\<close>

theorem sign_export_key_not_found:
  "(dropWhile refused (asked B a [Remote_if m, Ledger_if m, Local_if m] s) = [] \<longrightarrow>
      WalletSign B m a toSign meta s =
        (Inl (Errorf ''key not found''),
         \<lparr>world = world_after (world s) (asked B a [Remote_if m, Ledger_if m, Local_if m] s),
          calls = calls s @ declined a (configured [Remote_if m, Ledger_if m, Local_if m])\<rparr>)) \<and>
   (dropWhile refused (asked B a [Remote_if m, Local_if m] s) = [] \<longrightarrow>
      WalletExport B m a password s =
        (Inl (Errorf ''key not found''),
         \<lparr>world = world_after (world s) (asked B a [Remote_if m, Local_if m] s),
          calls = calls s @ declined a (configured [Remote_if m, Local_if m])\<rparr>)) \<and>
   (find_wallet B a [Remote_if m, Ledger_if m, Local_if m] s = (Inr (Some w), s1) \<longrightarrow>
      WalletSign B m a toSign meta s =
        invoke (impl_WalletSign B w a toSign meta) (Call_WalletSign w a) s1) \<and>
   (find_wallet B a [Remote_if m, Local_if m] s = (Inr (Some w'), s1') \<longrightarrow>
      WalletExport B m a password s =
        invoke (impl_WalletExport B w' a password) (Call_WalletExport w' a) s1') \<and>
   (fst (WalletSign B m a toSign meta s) = Inl (Errorf ''key not found'') \<longleftrightarrow>
      fst (find_wallet B a [Remote_if m, Ledger_if m, Local_if m] s) = Inr None \<or>
      fst (find_wallet B a [Remote_if m, Ledger_if m, Local_if m] s) = Inl (Errorf ''key not found'') \<or>
      (\<exists>w. fst (find_wallet B a [Remote_if m, Ledger_if m, Local_if m] s) = Inr (Some w) \<and>
         fst (impl_WalletSign B w a toSign meta
           (world (snd (find_wallet B a [Remote_if m, Ledger_if m, Local_if m] s)))) =
         Failure ''key not found'')) \<and>
   (fst (WalletExport B m a password s) = Inl (Errorf ''key not found'') \<longleftrightarrow>
      fst (find_wallet B a [Remote_if m, Local_if m] s) = Inr None \<or>
      fst (find_wallet B a [Remote_if m, Local_if m] s) = Inl (Errorf ''key not found'') \<or>
      (\<exists>w. fst (find_wallet B a [Remote_if m, Local_if m] s) = Inr (Some w) \<and>
         fst (impl_WalletExport B w a password
           (world (snd (find_wallet B a [Remote_if m, Local_if m] s)))) =
         Failure ''key not found'')) \<and>
   (\<exists>evs. calls (snd (WalletExport B m a password s)) = calls s @ evs \<and>
      (\<forall>ev \<in> set evs. fst (receiver ev) \<noteq> LedgerWallet))"
proof -
  have "WalletSign B m a toSign meta s =
        (Inl (Errorf ''key not found''),
         \<lparr>world = world_after (world s) (asked B a [Remote_if m, Ledger_if m, Local_if m] s),
          calls = calls s @ declined a (configured [Remote_if m, Ledger_if m, Local_if m])\<rparr>)"
    if "dropWhile refused (asked B a [Remote_if m, Ledger_if m, Local_if m] s) = []"
    using find_wallet_all_refuse [OF that] by (simp add: WalletSign_def)
  moreover have "WalletExport B m a password s =
        (Inl (Errorf ''key not found''),
         \<lparr>world = world_after (world s) (asked B a [Remote_if m, Local_if m] s),
          calls = calls s @ declined a (configured [Remote_if m, Local_if m])\<rparr>)"
    if "dropWhile refused (asked B a [Remote_if m, Local_if m] s) = []"
    using find_wallet_all_refuse [OF that] by (simp add: WalletExport_def)
  moreover have "WalletSign B m a toSign meta s =
        invoke (impl_WalletSign B w a toSign meta) (Call_WalletSign w a) s1"
    if "find_wallet B a [Remote_if m, Ledger_if m, Local_if m] s = (Inr (Some w), s1)"
    using that by (simp add: WalletSign_def)
  moreover have "WalletExport B m a password s =
        invoke (impl_WalletExport B w' a password) (Call_WalletExport w' a) s1'"
    if "find_wallet B a [Remote_if m, Local_if m] s = (Inr (Some w'), s1')"
    using that by (simp add: WalletExport_def)
  moreover note WalletSign_key_not_found [of B m a toSign meta s]
    WalletExport_key_not_found [of B m a password s]
    WalletExport_not_Ledger [of B m a password s]
  ultimately show ?thesis by (intro conjI impI) assumption+
qed

theorem sign_export_key_not_found_witness:
  "WalletSign store_backends wallets_all ''A'' [1, 2] []
     (start \<lparr>remote_keys = [], ledger_keys = [''A''], local_keys = [], unreachable = []\<rparr>)
   = (Inr (Some [1, 2]),
      \<lparr>world = \<lparr>remote_keys = [], ledger_keys = [''A''], local_keys = [], unreachable = []\<rparr>,
       calls = [Call_WalletHas (RemoteWallet, Some 2) ''A'' (Value False),
                Call_WalletHas (LedgerWallet, Some 3) ''A'' (Value True),
                Call_WalletSign (LedgerWallet, Some 3) ''A'' (Value (Some [1, 2]))]\<rparr>) \<and>
   WalletExport store_backends wallets_all ''A'' ''pw''
     (start \<lparr>remote_keys = [], ledger_keys = [''A''], local_keys = [], unreachable = []\<rparr>)
   = (Inl (Errorf ''key not found''),
      \<lparr>world = \<lparr>remote_keys = [], ledger_keys = [''A''], local_keys = [], unreachable = []\<rparr>,
       calls = [Call_WalletHas (RemoteWallet, Some 2) ''A'' (Value False),
                Call_WalletHas (LocalWallet, Some 1) ''A'' (Value False)]\<rparr>)"
proof -
  let ?x = "\<lparr>remote_keys = [], ledger_keys = [''A''], local_keys = [], unreachable = []\<rparr>"
  let ?s1 = "\<lparr>world = ?x, calls = [Call_WalletHas (RemoteWallet, Some 2) ''A'' (Value False),
                Call_WalletHas (LedgerWallet, Some 3) ''A'' (Value True)]\<rparr>"
  have h2: "dropWhile refused
      (asked store_backends ''A'' [Remote_if wallets_all, Local_if wallets_all] (start ?x)) = []"
    by (simp add: router_defs store_defs run_defs)
  have w2: "world_after (world (start ?x))
      (asked store_backends ''A'' [Remote_if wallets_all, Local_if wallets_all] (start ?x)) = ?x"
    by (simp add: router_defs store_defs run_defs)
  have c2: "configured [Remote_if wallets_all, Local_if wallets_all] =
      [(RemoteWallet, Some 2), (LocalWallet, Some 1)]"
    by (simp add: router_defs store_defs)
  have f3: "find_wallet store_backends ''A''
      [Remote_if wallets_all, Ledger_if wallets_all, Local_if wallets_all] (start ?x) =
      (Inr (Some (LedgerWallet, Some 3)), ?s1)"
    by (simp add: router_defs store_defs)
  have i3: "invoke (impl_WalletSign store_backends (LedgerWallet, Some 3) ''A'' [1, 2] [])
      (Call_WalletSign (LedgerWallet, Some 3) ''A'') ?s1 =
      (Inr (Some [1, 2]), \<lparr>world = ?x, calls = [Call_WalletHas (RemoteWallet, Some 2) ''A'' (Value False),
                Call_WalletHas (LedgerWallet, Some 3) ''A'' (Value True),
                Call_WalletSign (LedgerWallet, Some 3) ''A'' (Value (Some [1, 2]))]\<rparr>)"
    by (simp add: router_defs store_defs)
  from sign_export_key_not_found [where B = store_backends and m = wallets_all and a = "''A''"
      and s = "start ?x" and toSign = "[1, 2]" and meta = "[]" and password = "''pw''"
      and w = "(LedgerWallet, Some 3)" and ?s1.0 = ?s1]
  show ?thesis using h2 w2 c2 f3 i3 by (simp add: declined_def start_def)
qed

text \<open>
  The error "key not found" does not tell that nobody claims the address: here the search
  finds the Local backend as the owner, and the error is the one of its own method.
\<close>

theorem key_not_found_with_an_owner:
  "find_wallet forgetful_backends ''A'' [Remote_if wallets_L, Ledger_if wallets_L, Local_if wallets_L]
     (start \<lparr>remote_keys = [], ledger_keys = [], local_keys = [''A''], unreachable = []\<rparr>)
   = (Inr (Some (LocalWallet, Some 1)),
      \<lparr>world = \<lparr>remote_keys = [], ledger_keys = [], local_keys = [''A''], unreachable = []\<rparr>,
       calls = [Call_WalletHas (LocalWallet, Some 1) ''A'' (Value True)]\<rparr>) \<and>
   WalletSign forgetful_backends wallets_L ''A'' [1, 2] []
     (start \<lparr>remote_keys = [], ledger_keys = [], local_keys = [''A''], unreachable = []\<rparr>)
   = (Inl (Errorf ''key not found''),
      \<lparr>world = \<lparr>remote_keys = [], ledger_keys = [], local_keys = [''A''], unreachable = []\<rparr>,
       calls = [Call_WalletHas (LocalWallet, Some 1) ''A'' (Value True),
                Call_WalletSign (LocalWallet, Some 1) ''A'' (Failure ''key not found'')]\<rparr>) \<and>
   WalletExport forgetful_backends wallets_L ''A'' ''pw''
     (start \<lparr>remote_keys = [], ledger_keys = [], local_keys = [''A''], unreachable = []\<rparr>)
   = (Inl (Errorf ''key not found''),
      \<lparr>world = \<lparr>remote_keys = [], ledger_keys = [], local_keys = [''A''], unreachable = []\<rparr>,
       calls = [Call_WalletHas (LocalWallet, Some 1) ''A'' (Value True),
                Call_WalletExport (LocalWallet, Some 1) ''A'' (Failure ''key not found'')]\<rparr>)"
  by (simp add: WalletSign_def WalletExport_def router_defs store_defs forgetful_backends_def)

subsection \<open>The deletion loop\<close>

text \<open>
  C5. One round of \<open>WalletDelete\<close>: it runs the search over Remote, Ledger, Local. A failed
  search ends the call with that error. A search with no owner ends it with success, after
  one query per configured backend and no call of a backend's \<open>WalletDelete\<close>. Otherwise
  the owner's \<open>WalletDelete\<close> is called: its error ends the call, and after its success
  the whole resolution starts again from the new state.
\<close>

theorem delete_resolves_and_repeats:
  "(find_wallet B a [Remote_if m, Ledger_if m, Local_if m] s = (Inl e, s1) \<longrightarrow>
      WalletDelete B m a pass s = Some (Inl e, s1)) \<and>
   (find_wallet B a [Remote_if m, Ledger_if m, Local_if m] s = (Inr None, s1) \<longrightarrow>
      WalletDelete B m a pass s = Some (Inr (), s1) \<and>
      calls s1 = calls s @ declined a (configured [Remote_if m, Ledger_if m, Local_if m])) \<and>
   (find_wallet B a [Remote_if m, Ledger_if m, Local_if m] s = (Inr (Some w), s1) \<and>
    invoke (impl_WalletDelete B w a pass) (Call_WalletDelete w a) s1 = (Inl e', s2) \<longrightarrow>
      WalletDelete B m a pass s = Some (Inl e', s2)) \<and>
   (find_wallet B a [Remote_if m, Ledger_if m, Local_if m] s = (Inr (Some w), s1) \<and>
    invoke (impl_WalletDelete B w a pass) (Call_WalletDelete w a) s1 = (Inr u, s2) \<longrightarrow>
      WalletDelete B m a pass s = WalletDelete B m a pass s2)"
proof -
  have "calls s1 = calls s @ declined a (configured [Remote_if m, Ledger_if m, Local_if m])"
    if f: "find_wallet B a [Remote_if m, Ledger_if m, Local_if m] s = (Inr None, s1)"
  proof -
    from find_wallet_calls [OF f] obtain evs where
      "calls s1 = calls s @ evs"
      "search_run a (configured [Remote_if m, Ledger_if m, Local_if m]) (Inr None) evs" by blast
    then show ?thesis using search_run_none by blast
  qed
  moreover have "WalletDelete B m a pass s = Some (Inl e, s1)"
    if "find_wallet B a [Remote_if m, Ledger_if m, Local_if m] s = (Inl e, s1)"
    by (subst WalletDelete.simps) (simp add: that)
  moreover have "WalletDelete B m a pass s = Some (Inr (), s1)"
    if "find_wallet B a [Remote_if m, Ledger_if m, Local_if m] s = (Inr None, s1)"
    by (subst WalletDelete.simps) (simp add: that)
  moreover have "WalletDelete B m a pass s = Some (Inl e', s2)"
    if "find_wallet B a [Remote_if m, Ledger_if m, Local_if m] s = (Inr (Some w), s1)"
      "invoke (impl_WalletDelete B w a pass) (Call_WalletDelete w a) s1 = (Inl e', s2)"
    by (subst WalletDelete.simps) (simp add: that)
  moreover have "WalletDelete B m a pass s = WalletDelete B m a pass s2"
    if "find_wallet B a [Remote_if m, Ledger_if m, Local_if m] s = (Inr (Some w), s1)"
      "invoke (impl_WalletDelete B w a pass) (Call_WalletDelete w a) s1 = (Inr u, s2)"
    by (subst WalletDelete.simps) (simp add: that)
  ultimately show ?thesis by blast
qed


theorem delete_resolves_and_repeats_witness:
  "WalletDelete store_backends wallets_RL ''A'' ''pw''
     (start \<lparr>remote_keys = [''B''], ledger_keys = [], local_keys = [], unreachable = []\<rparr>)
   = Some (Inr (),
      \<lparr>world = \<lparr>remote_keys = [''B''], ledger_keys = [], local_keys = [], unreachable = []\<rparr>,
       calls = [Call_WalletHas (RemoteWallet, Some 2) ''A'' (Value False),
                Call_WalletHas (LocalWallet, Some 1) ''A'' (Value False)]\<rparr>) \<and>
   WalletDelete store_backends wallets_RL ''A'' ''pw''
     (start \<lparr>remote_keys = [''A'', ''B''], ledger_keys = [], local_keys = [], unreachable = []\<rparr>)
   = WalletDelete store_backends wallets_RL ''A'' ''pw''
      \<lparr>world = \<lparr>remote_keys = [''B''], ledger_keys = [], local_keys = [], unreachable = []\<rparr>,
       calls = [Call_WalletHas (RemoteWallet, Some 2) ''A'' (Value True),
                Call_WalletDelete (RemoteWallet, Some 2) ''A'' (Value ())]\<rparr> \<and>
   WalletDelete store_backends wallets_RL ''A'' ''pw''
     (start \<lparr>remote_keys = [], ledger_keys = [], local_keys = [''A''], unreachable = [LocalWallet]\<rparr>)
   = Some (Inl (Errorf ''unreachable''),
      \<lparr>world = \<lparr>remote_keys = [], ledger_keys = [], local_keys = [''A''], unreachable = [LocalWallet]\<rparr>,
       calls = [Call_WalletHas (RemoteWallet, Some 2) ''A'' (Value False),
                Call_WalletHas (LocalWallet, Some 1) ''A'' (Failure ''unreachable'')]\<rparr>)"
proof -
  let ?ws = "[Remote_if wallets_RL, Ledger_if wallets_RL, Local_if wallets_RL]"
  let ?s = "start \<lparr>remote_keys = [''B''], ledger_keys = [], local_keys = [], unreachable = []\<rparr>"
  let ?s1 = "\<lparr>world = \<lparr>remote_keys = [''B''], ledger_keys = [], local_keys = [], unreachable = []\<rparr>,
       calls = [Call_WalletHas (RemoteWallet, Some 2) ''A'' (Value False),
                Call_WalletHas (LocalWallet, Some 1) ''A'' (Value False)]\<rparr>"
  let ?t = "start \<lparr>remote_keys = [''A'', ''B''], ledger_keys = [], local_keys = [], unreachable = []\<rparr>"
  let ?t1 = "\<lparr>world = \<lparr>remote_keys = [''A'', ''B''], ledger_keys = [], local_keys = [], unreachable = []\<rparr>,
       calls = [Call_WalletHas (RemoteWallet, Some 2) ''A'' (Value True)]\<rparr>"
  let ?t2 = "\<lparr>world = \<lparr>remote_keys = [''B''], ledger_keys = [], local_keys = [], unreachable = []\<rparr>,
       calls = [Call_WalletHas (RemoteWallet, Some 2) ''A'' (Value True),
                Call_WalletDelete (RemoteWallet, Some 2) ''A'' (Value ())]\<rparr>"
  let ?u = "start \<lparr>remote_keys = [], ledger_keys = [], local_keys = [''A''], unreachable = [LocalWallet]\<rparr>"
  let ?u1 = "\<lparr>world = \<lparr>remote_keys = [], ledger_keys = [], local_keys = [''A''], unreachable = [LocalWallet]\<rparr>,
       calls = [Call_WalletHas (RemoteWallet, Some 2) ''A'' (Value False),
                Call_WalletHas (LocalWallet, Some 1) ''A'' (Failure ''unreachable'')]\<rparr>"
  have f1: "find_wallet store_backends ''A'' ?ws ?s = (Inr None, ?s1)"
    by (simp add: router_defs store_defs)
  have f2: "find_wallet store_backends ''A'' ?ws ?t = (Inr (Some (RemoteWallet, Some 2)), ?t1)"
    by (simp add: router_defs store_defs)
  have d2: "invoke (impl_WalletDelete store_backends (RemoteWallet, Some 2) ''A'' ''pw'')
      (Call_WalletDelete (RemoteWallet, Some 2) ''A'') ?t1 = (Inr (), ?t2)"
    by (simp add: router_defs store_defs)
  have f3: "find_wallet store_backends ''A'' ?ws ?u = (Inl (Errorf ''unreachable''), ?u1)"
    by (simp add: router_defs store_defs)
  show ?thesis
    using f1 f2 d2 f3
      delete_resolves_and_repeats [where B = store_backends and m = wallets_RL and a = "''A''"
        and pass = "''pw''" and s = ?s and ?s1.0 = ?s1]
      delete_resolves_and_repeats [where B = store_backends and m = wallets_RL and a = "''A''"
        and pass = "''pw''" and s = ?t and ?s1.0 = ?t1 and ?s2.0 = ?t2
        and w = "(RemoteWallet, Some 2)" and u = "()"]
      delete_resolves_and_repeats [where B = store_backends and m = wallets_RL and a = "''A''"
        and pass = "''pw''" and s = ?u and ?s1.0 = ?u1 and e = "Errorf ''unreachable''"]
    by blast
qed

subsection \<open>Enumeration\<close>

lemma set_first_occurrences [simp]: "set (first_occurrences xs) = set xs"
  by (induction xs rule: first_occurrences.induct) auto

lemma distinct_first_occurrences [simp]: "distinct (first_occurrences xs)"
  by (induction xs rule: first_occurrences.induct) auto







subsection \<open>Convergence of the deletion loop\<close>

lemma find_loop_readonly:
  assumes "\<forall>w \<in> set ws. \<forall>x. snd (impl_WalletHas B w a x) = x"
    and "find_loop B a ws s = (r, s')"
  shows "world s' = world s \<and>
    (r = Inr None \<longrightarrow> (\<forall>w \<in> set ws. fst (impl_WalletHas B w a (world s)) = Value False)) \<and>
    (\<forall>w. r = Inr (Some w) \<longrightarrow> w \<in> set ws \<and> fst (impl_WalletHas B w a (world s)) = Value True)"
  using assms
proof (induction ws arbitrary: s)
  case Nil
  then show ?case by auto
next
  case (Cons w ws)
  obtain rep x where f: "impl_WalletHas B w a (world s) = (rep, x)"
    by (cases "impl_WalletHas B w a (world s)")
  have x: "x = world s" using Cons.prems(1) f by (metis list.set_intros(1) snd_conv)
  let ?s1 = "\<lparr>world = x, calls = calls s @ [Call_WalletHas w a rep]\<rparr>"
  have inv: "invoke (impl_WalletHas B w a) (Call_WalletHas w a) s = (from_backend rep, ?s1)"
    by (simp add: invoke_def f)
  show ?case
  proof (cases rep)
    case (Value b)
    show ?thesis
    proof (cases b)
      case True
      with Value inv Cons.prems(2) have "r = Inr (Some w)" "s' = ?s1" by auto
      then show ?thesis using x f Value True by simp
    next
      case False
      with Value inv Cons.prems(2) have rest: "find_loop B a ws ?s1 = (r, s')" by auto
      have "\<forall>w \<in> set ws. \<forall>x. snd (impl_WalletHas B w a x) = x" using Cons.prems(1) by simp
      from Cons.IH [OF this rest] show ?thesis using x f Value False by auto
    qed
  next
    case (Failure msg)
    with inv Cons.prems(2) have "r = Inl (Errorf msg)" "s' = ?s1" by auto
    then show ?thesis using x by simp
  next
    case Crash
    with inv Cons.prems(2) have "r = Inl Panic" "s' = ?s1" by auto
    then show ?thesis using x by simp
  qed
qed


lemma claimants_zero:
  "(\<forall>w \<in> set ws. fst (impl_WalletHas B w a x) = Value False) \<Longrightarrow> claimants B a ws x = 0"
  by (induction ws) (simp_all add: claimants_def)


lemma find_loop_kept:
  assumes "answers_kept B a S" and "set ws \<subseteq> set S" and "find_loop B a ws s = (r, s')"
  shows "(\<forall>w' \<in> set S. fst (impl_WalletHas B w' a (world s')) = fst (impl_WalletHas B w' a (world s))) \<and>
    (r = Inr None \<longrightarrow> (\<forall>w \<in> set ws. fst (impl_WalletHas B w a (world s)) = Value False))"
  using assms(2,3)
proof (induction ws arbitrary: s)
  case Nil
  then show ?case by auto
next
  case (Cons w ws)
  obtain rep x where f: "impl_WalletHas B w a (world s) = (rep, x)"
    by (cases "impl_WalletHas B w a (world s)")
  have w: "w \<in> set S" and sub: "set ws \<subseteq> set S" using Cons.prems(1) by auto
  have keep: "\<forall>w' \<in> set S. fst (impl_WalletHas B w' a x) = fst (impl_WalletHas B w' a (world s))"
  proof
    fix w' assume "w' \<in> set S"
    with assms(1) w
    have "fst (impl_WalletHas B w' a (snd (impl_WalletHas B w a (world s)))) =
        fst (impl_WalletHas B w' a (world s))"
      unfolding answers_kept_def by blast
    then show "fst (impl_WalletHas B w' a x) = fst (impl_WalletHas B w' a (world s))"
      using f by simp
  qed
  let ?s1 = "\<lparr>world = x, calls = calls s @ [Call_WalletHas w a rep]\<rparr>"
  have inv: "invoke (impl_WalletHas B w a) (Call_WalletHas w a) s = (from_backend rep, ?s1)"
    by (simp add: invoke_def f)
  show ?case
  proof (cases "rep = Value False")
    case True
    with inv Cons.prems(2) have rest: "find_loop B a ws ?s1 = (r, s')" by auto
    from Cons.IH [OF sub rest] have
      k1: "\<forall>w' \<in> set S. fst (impl_WalletHas B w' a (world s')) = fst (impl_WalletHas B w' a x)" and
      n1: "r = Inr None \<longrightarrow> (\<forall>w \<in> set ws. fst (impl_WalletHas B w a x) = Value False)"
      by simp_all
    have "\<forall>w' \<in> set S. fst (impl_WalletHas B w' a (world s')) = fst (impl_WalletHas B w' a (world s))"
      using k1 keep by simp
    moreover have "\<forall>w0 \<in> set (w # ws). fst (impl_WalletHas B w0 a (world s)) = Value False"
      if "r = Inr None"
    proof
      fix w0 assume "w0 \<in> set (w # ws)"
      then consider "w0 = w" | "w0 \<in> set ws" by auto
      then show "fst (impl_WalletHas B w0 a (world s)) = Value False"
      proof cases
        case 1
        then show ?thesis using f True by simp
      next
        case 2
        with n1 that have "fst (impl_WalletHas B w0 a x) = Value False" by blast
        moreover from 2 sub have "w0 \<in> set S" by blast
        ultimately show ?thesis using keep by simp
      qed
    qed
    ultimately show ?thesis by blast
  next
    case False
    then have "r \<noteq> Inr None \<and> s' = ?s1"
      using inv Cons.prems(2) by (cases rep) (auto split: if_splits)
    then show ?thesis using keep by simp
  qed
qed

lemma find_loop_nobody_kept:
  assumes "answers_kept B a S" and "set ws \<subseteq> set S"
    and "\<forall>w \<in> set ws. fst (impl_WalletHas B w a (world s)) = Value False"
  shows "fst (find_loop B a ws s) = Inr None"
  using assms(2,3)
proof (induction ws arbitrary: s)
  case Nil
  then show ?case by simp
next
  case (Cons w ws)
  obtain rep x where f: "impl_WalletHas B w a (world s) = (rep, x)"
    by (cases "impl_WalletHas B w a (world s)")
  have w: "w \<in> set S" and sub: "set ws \<subseteq> set S" using Cons.prems(1) by auto
  have rep: "rep = Value False" using Cons.prems(2) f by simp
  let ?s1 = "\<lparr>world = x, calls = calls s @ [Call_WalletHas w a rep]\<rparr>"
  have "\<forall>w' \<in> set ws. fst (impl_WalletHas B w' a (world ?s1)) = Value False"
  proof
    fix w' assume w': "w' \<in> set ws"
    with assms(1) w sub
    have "fst (impl_WalletHas B w' a (snd (impl_WalletHas B w a (world s)))) =
        fst (impl_WalletHas B w' a (world s))"
      unfolding answers_kept_def by blast
    then show "fst (impl_WalletHas B w' a (world ?s1)) = Value False"
      using f w' Cons.prems(2) by simp
  qed
  from Cons.IH [OF sub this] have "fst (find_loop B a ws ?s1) = Inr None" .
  moreover have "find_loop B a (w # ws) s = find_loop B a ws ?s1"
    by (simp add: invoke_def f rep)
  ultimately show ?case by simp
qed

text \<open>
  C6. If every successful round of the deletion loop makes the number of claiming backends
  smaller, \<open>WalletDelete\<close> returns, from every state, also when several backends claim the
  address. When it returns success, the last thing it did was a complete search that found
  no owner: a call of \<open>WalletHas\<close> that returned false. If moreover the queries do not
  change what the configured backends answer, then no configured backend claims the address
  in the final state and \<open>WalletHas\<close> reports false there.
\<close>

theorem delete_converges:
  assumes dec: "each_round_decreases B m a pass"
  shows "\<exists>r s'. WalletDelete B m a pass s = Some (r, s') \<and>
    (r = Inr () \<longrightarrow>
       (\<exists>sk. rtranclp (delete_round B m a pass) s sk \<and> WalletHas B m a sk = (Inr False, s')) \<and>
       (answers_kept B a (configured [Remote_if m, Ledger_if m, Local_if m]) \<longrightarrow>
          claimants B a (configured [Remote_if m, Ledger_if m, Local_if m]) (world s') = 0 \<and>
          fst (WalletHas B m a s') = Inr False))"
proof (induction "claimants B a (configured [Remote_if m, Ledger_if m, Local_if m]) (world s)"
    arbitrary: s rule: less_induct)
  case less
  let ?wallets = "[Remote_if m, Ledger_if m, Local_if m]"
  let ?ws = "configured ?wallets"
  obtain r0 s0 where f: "find_wallet B a ?wallets s = (r0, s0)"
    by (cases "find_wallet B a ?wallets s")
  then have fl: "find_loop B a ?ws s = (r0, s0)"
    by (simp add: find_wallet_def nonNil_configured)
  show ?case
  proof (cases r0)
    case (Inl e)
    then have "WalletDelete B m a pass s = Some (Inl e, s0)"
      by (subst WalletDelete.simps) (simp add: f)
    then show ?thesis by simp
  next
    case (Inr ow)
    show ?thesis
    proof (cases ow)
      case None
      have d: "WalletDelete B m a pass s = Some (Inr (), s0)"
        by (subst WalletDelete.simps) (simp add: f Inr None)
      have h: "WalletHas B m a s = (Inr False, s0)"
        by (simp add: WalletHas_def f Inr None)
      have here: "\<exists>sk. rtranclp (delete_round B m a pass) s sk \<and> WalletHas B m a sk = (Inr False, s0)"
        using h by blast
      have after: "claimants B a ?ws (world s0) = 0 \<and> fst (WalletHas B m a s0) = Inr False"
        if kept: "answers_kept B a ?ws"
      proof -
        from find_loop_kept [OF kept subset_refl fl] Inr None
        have nobody: "\<forall>w \<in> set ?ws. fst (impl_WalletHas B w a (world s0)) = Value False"
          by simp
        then have "claimants B a ?ws (world s0) = 0" by (rule claimants_zero)
        moreover have "fst (find_wallet B a ?wallets s0) = Inr None"
          using find_loop_nobody_kept [OF kept subset_refl nobody]
          by (simp add: find_wallet_def nonNil_configured)
        then have "fst (WalletHas B m a s0) = Inr False"
          by (cases "find_wallet B a ?wallets s0") (simp add: WalletHas_def)
        ultimately show ?thesis by simp
      qed
      show ?thesis using d here after by blast
    next
      case (Some w)
      obtain rep x where i: "impl_WalletDelete B w a pass (world s0) = (rep, x)"
        by (cases "impl_WalletDelete B w a pass (world s0)")
      let ?s1 = "\<lparr>world = x, calls = calls s0 @ [Call_WalletDelete w a rep]\<rparr>"
      have inv: "invoke (impl_WalletDelete B w a pass) (Call_WalletDelete w a) s0 =
          (from_backend rep, ?s1)"
        by (simp add: invoke_def i)
      show ?thesis
      proof (cases "from_backend rep")
        case (Inl e)
        then have "WalletDelete B m a pass s = Some (Inl e, ?s1)"
          by (subst WalletDelete.simps) (simp add: f \<open>r0 = Inr ow\<close> Some inv)
        then show ?thesis by simp
      next
        case (Inr u)
        have round: "delete_round B m a pass s ?s1"
          unfolding delete_round_def using f \<open>r0 = Inr ow\<close> Some inv Inr by auto
        with dec have "claimants B a ?ws (world ?s1) < claimants B a ?ws (world s)"
          unfolding each_round_decreases_def by blast
        from less [OF this] obtain r s' where
          d1: "WalletDelete B m a pass ?s1 = Some (r, s')" and
          p1: "r = Inr () \<longrightarrow>
            (\<exists>sk. rtranclp (delete_round B m a pass) ?s1 sk \<and> WalletHas B m a sk = (Inr False, s')) \<and>
            (answers_kept B a ?ws \<longrightarrow>
               claimants B a ?ws (world s') = 0 \<and> fst (WalletHas B m a s') = Inr False)"
          by blast
        have "WalletDelete B m a pass s = Some (r, s')"
          using delete_round_same [OF round] d1 by simp
        moreover have "\<exists>sk. rtranclp (delete_round B m a pass) s sk \<and>
            WalletHas B m a sk = (Inr False, s')"
          if "r = Inr ()"
        proof -
          from p1 that obtain sk where
            "rtranclp (delete_round B m a pass) ?s1 sk" "WalletHas B m a sk = (Inr False, s')"
            by blast
          then show ?thesis using round by (meson converse_rtranclp_into_rtranclp)
        qed
        ultimately show ?thesis using p1 by blast
      qed
    qed
  qed
qed

theorem delete_converges_witness:
  "WalletDelete store_backends wallets_RL ''A'' ''pw''
     (start \<lparr>remote_keys = [''A'', ''B''], ledger_keys = [], local_keys = [''A''], unreachable = []\<rparr>)
   = Some (Inr (),
      \<lparr>world = \<lparr>remote_keys = [''B''], ledger_keys = [], local_keys = [], unreachable = []\<rparr>,
       calls = [Call_WalletHas (RemoteWallet, Some 2) ''A'' (Value True),
                Call_WalletDelete (RemoteWallet, Some 2) ''A'' (Value ()),
                Call_WalletHas (RemoteWallet, Some 2) ''A'' (Value False),
                Call_WalletHas (LocalWallet, Some 1) ''A'' (Value True),
                Call_WalletDelete (LocalWallet, Some 1) ''A'' (Value ()),
                Call_WalletHas (RemoteWallet, Some 2) ''A'' (Value False),
                Call_WalletHas (LocalWallet, Some 1) ''A'' (Value False)]\<rparr>) \<and>
   claimants store_backends ''A'' (configured [Remote_if wallets_RL, Ledger_if wallets_RL, Local_if wallets_RL])
     \<lparr>remote_keys = [''A'', ''B''], ledger_keys = [], local_keys = [''A''], unreachable = []\<rparr> = 2 \<and>
   fst (WalletHas store_backends wallets_RL ''A''
      \<lparr>world = \<lparr>remote_keys = [''B''], ledger_keys = [], local_keys = [], unreachable = []\<rparr>,
       calls = [Call_WalletHas (RemoteWallet, Some 2) ''A'' (Value True),
                Call_WalletDelete (RemoteWallet, Some 2) ''A'' (Value ()),
                Call_WalletHas (RemoteWallet, Some 2) ''A'' (Value False),
                Call_WalletHas (LocalWallet, Some 1) ''A'' (Value True),
                Call_WalletDelete (LocalWallet, Some 1) ''A'' (Value ()),
                Call_WalletHas (RemoteWallet, Some 2) ''A'' (Value False),
                Call_WalletHas (LocalWallet, Some 1) ''A'' (Value False)]\<rparr>) = Inr False"
proof -
  let ?wallets = "[Remote_if wallets_RL, Ledger_if wallets_RL, Local_if wallets_RL]"
  let ?ws = "configured ?wallets"
  let ?s = "start \<lparr>remote_keys = [''A'', ''B''], ledger_keys = [], local_keys = [''A''], unreachable = []\<rparr>"
  let ?s' = "\<lparr>world = \<lparr>remote_keys = [''B''], ledger_keys = [], local_keys = [], unreachable = []\<rparr>,
       calls = [Call_WalletHas (RemoteWallet, Some 2) ''A'' (Value True),
                Call_WalletDelete (RemoteWallet, Some 2) ''A'' (Value ()),
                Call_WalletHas (RemoteWallet, Some 2) ''A'' (Value False),
                Call_WalletHas (LocalWallet, Some 1) ''A'' (Value True),
                Call_WalletDelete (LocalWallet, Some 1) ''A'' (Value ()),
                Call_WalletHas (RemoteWallet, Some 2) ''A'' (Value False),
                Call_WalletHas (LocalWallet, Some 1) ''A'' (Value False)]\<rparr>"
  have ws: "?ws = [(RemoteWallet, Some 2), (LocalWallet, Some 1)]"
    by (simp add: router_defs store_defs)
  have ro: "\<forall>w \<in> set ?ws. \<forall>x. snd (impl_WalletHas store_backends w ''A'' x) = x"
    unfolding ws by (simp add: store_defs)
  have call: "claimants store_backends ''A'' ?ws x' < claimants store_backends ''A'' ?ws x"
    if "w \<in> set ?ws" "fst (impl_WalletHas store_backends w ''A'' x) = Value True"
      "impl_WalletDelete store_backends w ''A'' ''pw'' x = (Value (), x')" for w x x'
    using that unfolding ws by (auto simp: store_defs claimants_def split: if_splits)
  have dec: "each_round_decreases store_backends wallets_RL ''A'' ''pw''"
    unfolding each_round_decreases_def
  proof (intro allI impI)
    fix s s' assume "delete_round store_backends wallets_RL ''A'' ''pw'' s s'"
    then obtain w s1 where
      f: "find_wallet store_backends ''A'' ?wallets s = (Inr (Some w), s1)" and
      d: "invoke (impl_WalletDelete store_backends w ''A'' ''pw'') (Call_WalletDelete w ''A'') s1 =
            (Inr (), s')"
      unfolding delete_round_def by blast
    from f have fl: "find_loop store_backends ''A'' ?ws s = (Inr (Some w), s1)"
      by (simp add: find_wallet_def nonNil_configured)
    from find_loop_readonly [OF ro fl]
    have w: "w \<in> set ?ws" "fst (impl_WalletHas store_backends w ''A'' (world s)) = Value True"
      and w1: "world s1 = world s" by simp_all
    obtain rep x where i: "impl_WalletDelete store_backends w ''A'' ''pw'' (world s) = (rep, x)"
      by (cases "impl_WalletDelete store_backends w ''A'' ''pw'' (world s)")
    with d w1 have "from_backend rep = Inr ()" "world s' = x" by (auto simp: invoke_def)
    then have "rep = Value ()" by (cases rep) auto
    with i have "impl_WalletDelete store_backends w ''A'' ''pw'' (world s) = (Value (), x)" by simp
    from call [OF w this] \<open>world s' = x\<close>
    show "claimants store_backends ''A'' ?ws (world s') < claimants store_backends ''A'' ?ws (world s)"
      by simp
  qed
  have kept: "answers_kept store_backends ''A'' ?ws"
    unfolding answers_kept_def ws by (simp add: store_defs)
  have run: "WalletDelete store_backends wallets_RL ''A'' ''pw'' ?s = Some (Inr (), ?s')"
    by (subst WalletDelete.simps, simp add: router_defs store_defs)+
  have two: "claimants store_backends ''A'' ?ws
     \<lparr>remote_keys = [''A'', ''B''], ledger_keys = [], local_keys = [''A''], unreachable = []\<rparr> = 2"
    unfolding ws by (simp add: store_defs claimants_def)
  from delete_converges [OF dec, of ?s] run kept
  have "fst (WalletHas store_backends wallets_RL ''A'' ?s') = Inr False" by simp
  with run two show ?thesis by blast
qed

text \<open>
  Without the condition on the queries the last part fails. The remote wallet below loses
  its claim with every \<open>WalletDelete\<close>, and every successful round makes the number of
  claiming backends smaller; \<open>WalletDelete\<close> returns success after a search in which the
  wallet answers false, and \<open>WalletHas\<close> reports true right after.
\<close>

theorem has_after_delete_counterexample:
  "each_round_decreases mirror_backends wallets_R ''A'' ''pw'' \<and>
   impl_WalletHas mirror_backends (RemoteWallet, Some 2) ''A''
     (snd (impl_WalletDelete mirror_backends (RemoteWallet, Some 2) ''A'' ''pw''
        \<lparr>held = [''A''], arriving = []\<rparr>))
   = (Value False, \<lparr>held = [], arriving = []\<rparr>) \<and>
   WalletDelete mirror_backends wallets_R ''A'' ''pw'' \<lparr>world = \<lparr>held = [], arriving = [''A'']\<rparr>, calls = []\<rparr>
   = Some (Inr (),
       \<lparr>world = \<lparr>held = [''A''], arriving = []\<rparr>,
        calls = [Call_WalletHas (RemoteWallet, Some 2) ''A'' (Value False)]\<rparr>) \<and>
   WalletHas mirror_backends wallets_R ''A''
       \<lparr>world = \<lparr>held = [''A''], arriving = []\<rparr>,
        calls = [Call_WalletHas (RemoteWallet, Some 2) ''A'' (Value False)]\<rparr>
   = (Inr True,
       \<lparr>world = \<lparr>held = [''A''], arriving = []\<rparr>,
        calls = [Call_WalletHas (RemoteWallet, Some 2) ''A'' (Value False),
                 Call_WalletHas (RemoteWallet, Some 2) ''A'' (Value True)]\<rparr>)"
proof -
  let ?wallets = "[Remote_if wallets_R, Ledger_if wallets_R, Local_if wallets_R]"
  have ws: "configured ?wallets = [(RemoteWallet, Some 2)]"
    by (simp add: router_defs mirror_defs)
  have dec: "each_round_decreases mirror_backends wallets_R ''A'' ''pw''"
    unfolding each_round_decreases_def
  proof (intro allI impI)
    fix s s' :: "mirror state"
    assume "delete_round mirror_backends wallets_R ''A'' ''pw'' s s'"
    then obtain w s1 where
      f: "find_wallet mirror_backends ''A'' ?wallets s = (Inr (Some w), s1)" and
      d: "invoke (impl_WalletDelete mirror_backends w ''A'' ''pw'') (Call_WalletDelete w ''A'') s1 =
            (Inr (), s')"
      unfolding delete_round_def by blast
    from f have held: "''A'' \<in> set (held (world s))" and s1: "world s1 = world s"
      by (auto simp: find_wallet_def nonNil_configured ws invoke_def mirror_backends_def
          split: if_splits)
    from d s1 have "world s' = (world s)\<lparr>held := removeAll ''A'' (held (world s))\<rparr>"
      by (auto simp: invoke_def mirror_backends_def)
    then show "claimants mirror_backends ''A'' (configured ?wallets) (world s') <
        claimants mirror_backends ''A'' (configured ?wallets) (world s)"
      using held unfolding ws by (simp add: claimants_def mirror_backends_def)
  qed
  have del: "impl_WalletHas mirror_backends (RemoteWallet, Some 2) ''A''
     (snd (impl_WalletDelete mirror_backends (RemoteWallet, Some 2) ''A'' ''pw''
        \<lparr>held = [''A''], arriving = []\<rparr>))
   = (Value False, \<lparr>held = [], arriving = []\<rparr>)"
    by (simp add: mirror_backends_def)
  have run: "WalletDelete mirror_backends wallets_R ''A'' ''pw''
      \<lparr>world = \<lparr>held = [], arriving = [''A'']\<rparr>, calls = []\<rparr>
   = Some (Inr (),
       \<lparr>world = \<lparr>held = [''A''], arriving = []\<rparr>,
        calls = [Call_WalletHas (RemoteWallet, Some 2) ''A'' (Value False)]\<rparr>)"
    by (subst WalletDelete.simps) (simp add: router_defs mirror_defs)
  have has: "WalletHas mirror_backends wallets_R ''A''
       \<lparr>world = \<lparr>held = [''A''], arriving = []\<rparr>,
        calls = [Call_WalletHas (RemoteWallet, Some 2) ''A'' (Value False)]\<rparr>
   = (Inr True,
       \<lparr>world = \<lparr>held = [''A''], arriving = []\<rparr>,
        calls = [Call_WalletHas (RemoteWallet, Some 2) ''A'' (Value False),
                 Call_WalletHas (RemoteWallet, Some 2) ''A'' (Value True)]\<rparr>)"
    by (simp add: WalletHas_def router_defs mirror_defs)
  from dec del run has show ?thesis by blast
qed

end
